theory Spec2Isabelle
  imports Main "HOL-Library.Word"
begin

unbundle bit_operations_syntax

section \<open>Python primitives used by MEA.py\<close>

text \<open>
  The input image \<open>reading\<close> is a Python \<open>bytes\<close> object, modelled as a list of
  bytes. Python integers are unbounded (\<open>nat\<close> or \<open>int\<close> here); a value read from a
  \<open>ctypes\<close> field is unsigned and bounded by the width of the field.
\<close>

type_synonym byte = "8 word"

text \<open>
  \<open>xs[i:j]\<close> for non-negative \<open>i\<close> and \<open>j\<close>: the slice is clamped to the buffer, and
  empty when \<open>j \<le> i\<close>; it never raises.
\<close>

definition slice :: "'a list \<Rightarrow> nat \<Rightarrow> nat \<Rightarrow> 'a list" where
  "slice xs i j = take (j - i) (drop i xs)"

text \<open>\<open>int.from_bytes(bs, 'little')\<close>; the empty byte string gives 0.\<close>

fun from_bytes_little :: "byte list \<Rightarrow> nat" where
  "from_bytes_little [] = 0"
| "from_bytes_little (b # bs) = unat b + 256 * from_bytes_little bs"

text \<open>
  Reading a \<open>char * n\<close> field of a \<open>ctypes\<close> structure gives the bytes up to the
  first NUL byte.
\<close>

definition c_char_value :: "byte list \<Rightarrow> byte list" where
  "c_char_value bs = takeWhile (\<lambda>b. b \<noteq> 0) bs"

text \<open>\<open>pat in data\<close> on byte strings: \<open>pat\<close> occurs as a contiguous run.\<close>

fun bytes_in :: "byte list \<Rightarrow> byte list \<Rightarrow> bool" where
  "bytes_in pat [] = (pat = [])"
| "bytes_in pat (x # xs) = (take (length pat) (x # xs) = pat \<or> bytes_in pat xs)"

text \<open>
  \<open>get_struct(str_, off, struct)\<close>, lines 1416 to 1434, with \<open>struct_len\<close> for
  \<open>ctypes.sizeof(struct)\<close>. When the offset is beyond \<open>file_end\<close> or the buffer
  holds fewer than \<open>struct_len\<close> bytes from \<open>off\<close>, the function stores and prints
  the error \<open>Offset ... out of bounds\<close> and calls \<open>mea_exit(1)\<close>, which ends in
  \<open>sys.exit(1)\<close>: the left summand \<open>OutOfBounds\<close>, the end of the process. (The other
  faults are exceptions that nothing catches, which end the process too.) Otherwise the
  structure is the \<open>struct_len\<close> bytes copied from \<open>off\<close>, read field by field below.
\<close>

datatype fault =
  OutOfBounds nat | Uncaught_ValueError | Uncaught_UnicodeDecodeError | Uncaught_IndexError

definition get_struct :: "nat \<Rightarrow> byte list \<Rightarrow> nat \<Rightarrow> nat \<Rightarrow> fault + byte list" where
  "get_struct file_end str off struct_len =
     (let str_data = slice str off (off + struct_len);
          fit_len = min (length str_data) struct_len
      in if off > file_end \<or> fit_len < struct_len then Inl (OutOfBounds off)
         else Inr str_data)"

text \<open>An unsigned 32-bit little-endian field at byte offset \<open>k\<close> of a structure.\<close>

definition field_u32 :: "byte list \<Rightarrow> nat \<Rightarrow> nat" where
  "field_u32 s k = from_bytes_little (slice s k (k + 4))"

text \<open>
  \<open>'%X' % n\<close>: the upper-case hexadecimal digits of \<open>n\<close> without leading zeros
  (\<open>0\<close> for 0); \<open>'%0.8X' % n\<close> pads them with zeros on the left to a width of at least
  8. \<open>int(s, 16)\<close> parses hexadecimal digits of either case and raises \<open>ValueError\<close>
  (\<open>None\<close>) on an empty string or a foreign character. \<open>s.upper()\<close> maps the letters
  \<open>a\<close> to \<open>z\<close> to upper case.
\<close>

definition hex_char :: "nat \<Rightarrow> char" where
  "hex_char d = ''0123456789ABCDEF'' ! d"

fun hex_digits :: "nat \<Rightarrow> string" where
  "hex_digits n = (if n < 16 then [hex_char n] else hex_digits (n div 16) @ [hex_char (n mod 16)])"

declare hex_digits.simps [simp del]

definition format_0X :: "nat \<Rightarrow> nat \<Rightarrow> string" where
  "format_0X width n = (let s = hex_digits n in replicate (width - length s) CHR ''0'' @ s)"

definition hex_val :: "char \<Rightarrow> nat option" where
  "hex_val c =
     (let k = (of_char c :: nat) in
      if 48 \<le> k \<and> k \<le> 57 then Some (k - 48)
      else if 65 \<le> k \<and> k \<le> 70 then Some (k - 55)
      else if 97 \<le> k \<and> k \<le> 102 then Some (k - 87)
      else None)"

fun int_base16_acc :: "nat \<Rightarrow> string \<Rightarrow> nat option" where
  "int_base16_acc a [] = Some a"
| "int_base16_acc a (c # cs) =
     (case hex_val c of None \<Rightarrow> None | Some d \<Rightarrow> int_base16_acc (16 * a + d) cs)"

definition int_base16 :: "string \<Rightarrow> nat option" where
  "int_base16 s = (if s = [] then None else int_base16_acc 0 s)"

definition str_upper :: "string \<Rightarrow> string" where
  "str_upper s = map (\<lambda>c. let k = (of_char c :: nat) in
                          if 97 \<le> k \<and> k \<le> 122 then char_of (k - 32) else c) s"

text \<open>\<open>s[-k:]\<close> for positive \<open>k\<close>: the last \<open>k\<close> elements, all of \<open>s\<close> when it is shorter.\<close>

definition str_last :: "nat \<Rightarrow> 'a list \<Rightarrow> 'a list" where
  "str_last k s = drop (length s - k) s"

text \<open>
  \<open>format(n, '032b')\<close>: the binary digits of \<open>n\<close>, most significant first, padded
  with zeros on the left to a width of at least 32. \<open>int(s, 2)\<close> parses such a string
  and raises \<open>ValueError\<close> (here \<open>None\<close>) on an empty string or a foreign character.
\<close>

definition bin_char :: "nat \<Rightarrow> char" where
  "bin_char d = (if d = 0 then CHR ''0'' else CHR ''1'')"

fun bin_digits :: "nat \<Rightarrow> string" where
  "bin_digits n = (if n < 2 then [bin_char n] else bin_digits (n div 2) @ [bin_char (n mod 2)])"

declare bin_digits.simps [simp del]

definition format_032b :: "nat \<Rightarrow> string" where
  "format_032b n = (let s = bin_digits n in replicate (32 - length s) CHR ''0'' @ s)"

fun int_base2_acc :: "nat \<Rightarrow> string \<Rightarrow> nat option" where
  "int_base2_acc a [] = Some a"
| "int_base2_acc a (c # cs) =
     (if c = CHR ''0'' then int_base2_acc (2 * a) cs
      else if c = CHR ''1'' then int_base2_acc (2 * a + 1) cs
      else None)"

definition int_base2 :: "string \<Rightarrow> nat option" where
  "int_base2 s = (if s = [] then None else int_base2_acc 0 s)"

section \<open>\<open>ext_anl\<close>: the packed offset/attribute word of a \$CPD entry\<close>

text \<open>
  Lines 1943 to 1946 (and 2103/2104, 3504/3505): the entry's \<open>OffsetAttrib\<close> field, a
  \<open>c_uint32\<close>, is rendered as 32 binary digits and cut by string slicing into
  \<open>cpd_mod_off = int(s[7:], 2)\<close>, \<open>cpd_mod_huff = int(s[6], 2)\<close> and
  \<open>cpd_mod_res = int(s[:6], 2)\<close>. The result is
  \<open>(cpd_mod_off, cpd_mod_huff, cpd_mod_res)\<close>; \<open>None\<close> stands for an exception.
\<close>

definition cpd_attr_decode :: "32 word \<Rightarrow> (nat \<times> nat \<times> nat) option" where
  "cpd_attr_decode OffsetAttrib =
     (let cpd_off_attr = format_032b (unat OffsetAttrib) in
      (case int_base2 (drop 7 cpd_off_attr) of None \<Rightarrow> None | Some cpd_mod_off \<Rightarrow>
        (if length cpd_off_attr \<le> 6 then None else
          (case int_base2 [cpd_off_attr ! 6] of None \<Rightarrow> None | Some cpd_mod_huff \<Rightarrow>
            (case int_base2 (take 6 cpd_off_attr) of None \<Rightarrow> None | Some cpd_mod_res \<Rightarrow>
              Some (cpd_mod_off, cpd_mod_huff, cpd_mod_res))))))"

text \<open>Proof device: the \<open>k\<close> low binary digits of \<open>n\<close>, most significant first.\<close>

fun bitstr :: "nat \<Rightarrow> nat \<Rightarrow> string" where
  "bitstr 0 n = []"
| "bitstr (Suc k) n = bitstr k (n div 2) @ [bin_char (n mod 2)]"

section \<open>\<open>cpd_chk\<close>: the \$CPD checksum\<close>

text \<open>
  Lines 1723 to 1729. \<open>cpd_data[0xB]\<close> raises \<open>IndexError\<close> on a buffer of fewer than
  12 bytes (\<open>None\<close>). In \<open>0x100 - cpd_sum & 0xFF\<close> the subtraction binds tighter than
  \<open>&\<close>; the difference may be negative, and Python's \<open>&\<close> on a negative integer works
  on its two's complement, as \<open>AND\<close> on \<open>int\<close> does.
\<close>

definition cpd_chk :: "byte list \<Rightarrow> bool option" where
  "cpd_chk cpd_data =
     (if length cpd_data \<le> 0xB then None
      else
        (let cpd_chk_byte = uint (cpd_data ! 0xB);
             cpd_sum = sum_list (map uint cpd_data) - cpd_chk_byte;
             cpd_chk_calc = ((0x100 - cpd_sum) AND 0xFF) AND 0xFF
         in Some (cpd_chk_byte = cpd_chk_calc)))"

text \<open>
  A 16-byte directory: tag \<open>\$CPD\<close>, no modules, versions 1 and 1, header length
  \<open>0x10\<close>, checksum \<open>0xB7\<close>, partition name \<open>FTPR\<close>.
\<close>

definition cpd_sample :: "byte list" where
  "cpd_sample = [0x24, 0x43, 0x50, 0x44, 0, 0, 0, 0, 1, 1, 0x10, 0xB7, 0x46, 0x54, 0x50, 0x52]"

section \<open>\<open>ext_anl\<close>: module attribute rows\<close>

text \<open>
  \<open>ext_anl\<close> collects one 13-element list per module in \<open>cpd_mod_attr\<close> (and per
  manifest or metadata in \<open>cpd_ext_attr\<close>); \<open>mod_anl\<close> reads the elements back by
  index under the names used for the fields here: index 0 is \<open>mod_name\<close>, 1
  \<open>mod_comp\<close>, 2 \<open>mod_encr\<close>, 3 \<open>mod_start\<close>, 4 \<open>mod_size_comp\<close>, 5
  \<open>mod_size_uncomp\<close>, 6 \<open>mod_empty\<close>, 7 \<open>mod_hash\<close>, 8 the \$CPD name, 9 the
  instance id, 10 the result of \<open>rsa_sig_val\<close>, 11 the \$CPD offset, 12 the \$CPD
  checksum verdict. A hash is a hexadecimal string, or the integer 0 where none is known.
\<close>

datatype py_val = PyStr string | PyInt int

type_synonym mn2_sigs = "bool \<times> py_val \<times> py_val \<times> bool"

record mod_attr =
  mod_name :: string
  mod_comp :: nat
  mod_encr :: nat
  mod_start :: nat
  mod_size_comp :: nat
  mod_size_uncomp :: nat
  mod_empty :: nat
  mod_hash :: py_val
  cpd_pname :: string
  ext_inid :: int
  mn2_sigs :: mn2_sigs
  cpd_poffset :: nat
  cpd_pvalid :: bool

section \<open>\<open>ext_anl\<close>: removal of missing IBBP modules\<close>

text \<open>
  Lines 2169 to 2176. \<open>ibbp_all\<close> holds the names of the \$CPD entries of an IBBP
  partition that are neither manifest nor metadata; \<open>ibbp_bpm\<close> is the fixed trio. For
  each name of the trio that is not in \<open>ibbp_all\<close>, the indices of the rows of that name
  are appended to \<open>ibbp_del\<close> (empty before); then \<open>del cpd_mod_attr[mod_index]\<close> runs
  for each collected index in turn, on the list as the earlier deletions left it.
  \<open>del xs[i]\<close> raises \<open>IndexError\<close> when \<open>i\<close> is not below the length: \<open>None\<close>.
\<close>

definition ibbp_bpm :: "string list" where
  "ibbp_bpm = [''IBBL'', ''IBB'', ''OBB'']"

fun del_index :: "'a list \<Rightarrow> nat \<Rightarrow> 'a list option" where
  "del_index xs i = (if i < length xs then Some (take i xs @ drop (Suc i) xs) else None)"

fun del_each :: "'a list \<Rightarrow> nat list \<Rightarrow> 'a list option" where
  "del_each xs [] = Some xs"
| "del_each xs (i # is) = (case del_index xs i of None \<Rightarrow> None | Some ys \<Rightarrow> del_each ys is)"

definition ibbp_missing :: "string list \<Rightarrow> mod_attr list \<Rightarrow> nat list" where
  "ibbp_missing ibbp_all cpd_mod_attr =
     concat (map (\<lambda>ibbp.
        if ibbp \<notin> set ibbp_all
        then filter (\<lambda>mod_index. mod_name (cpd_mod_attr ! mod_index) = ibbp)
               [0..<length cpd_mod_attr]
        else []) ibbp_bpm)"

definition ibbp_remove :: "string list \<Rightarrow> mod_attr list \<Rightarrow> mod_attr list option" where
  "ibbp_remove ibbp_all cpd_mod_attr =
     (if length ibbp_all \<noteq> 0
      then del_each cpd_mod_attr (ibbp_missing ibbp_all cpd_mod_attr)
      else Some cpd_mod_attr)"

text \<open>
  A row as Extension 0x13 of \<open>BPM.met\<close> appends it (lines 2074 to 2076) for a declared
  hash \<open>h\<close>, in a partition at offset 0 with a valid checksum and no manifest signature
  result (\<open>mn2_sigs\<close> as initialised at line 1864).
\<close>

definition bpm_row :: "string \<Rightarrow> string \<Rightarrow> mod_attr" where
  "bpm_row n h = \<lparr> mod_name = n, mod_comp = 0, mod_encr = 0, mod_start = 0, mod_size_comp = 0,
     mod_size_uncomp = 0, mod_empty = 0, mod_hash = PyStr h, cpd_pname = ''IBBP'', ext_inid = 0,
     mn2_sigs = (False, PyInt (- 1), PyInt (- 1), True), cpd_poffset = 0, cpd_pvalid = True \<rparr>"

text \<open>
  The row of a module of the trio that is present, after the second pass has filled in
  its size, its start offset and the instance id (lines 2120, 2121, 2131, 2132; the
  instance id is still the initial \<open>-1\<close>), and the row the second pass appends for any
  other data module (line 2167).
\<close>

definition bpm_row_present :: "string \<Rightarrow> string \<Rightarrow> nat \<Rightarrow> nat \<Rightarrow> mod_attr" where
  "bpm_row_present n h off sz =
     (bpm_row n h) \<lparr> mod_start := off, mod_size_comp := sz, mod_size_uncomp := sz,
       ext_inid := - 1 \<rparr>"

definition data_row :: "string \<Rightarrow> nat \<Rightarrow> nat \<Rightarrow> mod_attr" where
  "data_row n off sz = \<lparr> mod_name = n, mod_comp = 0, mod_encr = 0, mod_start = off,
     mod_size_comp = sz, mod_size_uncomp = sz, mod_empty = 0, mod_hash = PyInt 0,
     cpd_pname = ''IBBP'', ext_inid = 0,
     mn2_sigs = (False, PyInt (- 1), PyInt (- 1), True), cpd_poffset = 0, cpd_pvalid = True \<rparr>"

section \<open>\<open>mod_anl\<close>: the hash verdict of an LZMA module\<close>

text \<open>
  \<open>mod_anl\<close>, lines 2181 to 2500, over the rows of \<open>cpd_all_attr\<close>. The SHA-256 digest
  (\<open>sha_256\<close>, the hexadecimal digest of \<open>hashlib\<close>) and the LZMA decoder
  (\<open>lzma.LZMADecompressor().decompress\<close>, \<open>None\<close> when it raises) belong to Python's
  library and are parameters. The branches for uncompressed and Huffman modules (lines 2290
  to 2414 and 2446 to 2483) read files back and call an external decoder; they are the
  parameter \<open>other\<close>, which gives \<open>Some e\<close> when such a branch ends the run. Creating the
  folder, writing the module files and the extension info behind the report are taken to
  succeed and left out. The result of a row is what the function prints about its hash.
\<close>

datatype hash_report =
  Module_Skipped | Not_Lzma | Hash_Unknown | Hash_Valid | Hash_Invalid | Decompress_Failed

text \<open>
  The module listing, lines 2197 to 2200: \<open>comp[mod[1]]\<close>, \<open>encr_empty[mod[2]]\<close> and
  \<open>encr_empty[mod[6]]\<close> index lists of three, two and two names, for every row and before
  any module is handled.
\<close>

definition mod_details_ok :: "mod_attr \<Rightarrow> bool" where
  "mod_details_ok m = (mod_comp m < 3 \<and> mod_encr m < 2 \<and> mod_empty m < 2)"

definition lzma_strip :: "byte list \<Rightarrow> byte list" where
  "lzma_strip mod_data =
     (if take 5 mod_data = [0x36, 0x00, 0x40, 0x00, 0x00]
         \<and> slice mod_data 0xE 0x11 = [0x00, 0x00, 0x00]
      then take 0xE mod_data @ drop 0x11 mod_data
      else mod_data)"

definition lzma_pad :: "nat \<Rightarrow> byte list \<Rightarrow> byte list" where
  "lzma_pad size_uncomp mod_data =
     (let data_size_uncomp = length mod_data
      in if data_size_uncomp \<noteq> size_uncomp
         then mod_data @ replicate (size_uncomp - data_size_uncomp) 0xFF
         else mod_data)"

text \<open>The \<open>try\<close> block of an LZMA module, lines 2417 to 2444, with \<open>mea_hash_c\<close> of line 2267.\<close>

definition mod_anl_lzma ::
  "(byte list \<Rightarrow> string) \<Rightarrow> (byte list \<Rightarrow> byte list option) \<Rightarrow> nat \<Rightarrow> py_val
    \<Rightarrow> byte list \<Rightarrow> hash_report" where
  "mod_anl_lzma sha_256 lzma_decompress size_uncomp expected mod_data =
     (let mea_hash_c = str_upper (sha_256 mod_data)
      in (case lzma_decompress (lzma_strip mod_data) of
            None \<Rightarrow> Decompress_Failed
          | Some mod_data_u \<Rightarrow>
             (let mea_hash_u = str_upper (sha_256 (lzma_pad size_uncomp mod_data_u))
              in if expected = PyStr mea_hash_c \<or> expected = PyStr mea_hash_u
                 then Hash_Valid else Hash_Invalid)))"

text \<open>One pass of the loop over the modules, lines 2234 to 2500.\<close>

definition mod_anl_row ::
  "(byte list \<Rightarrow> string) \<Rightarrow> (byte list \<Rightarrow> byte list option) \<Rightarrow> (mod_attr \<Rightarrow> fault option)
    \<Rightarrow> byte list \<Rightarrow> mod_attr \<Rightarrow> fault + hash_report" where
  "mod_anl_row sha_256 lzma_decompress other reading m =
     (if mod_empty m = 1 then Inr Module_Skipped
      else
       (let mod_end = mod_start m + mod_size_comp m;
            mod_data = slice reading (mod_start m) mod_end
        in if mod_encr m = 1 then Inr Hash_Unknown
           else if mod_comp m = 2
           then Inr (mod_anl_lzma sha_256 lzma_decompress (mod_size_uncomp m) (mod_hash m) mod_data)
           else (case other m of Some e \<Rightarrow> Inl e | None \<Rightarrow> Inr Not_Lzma)))"

text \<open>
  The loop: the reports printed so far, and the fault that ended the run, if one did.
\<close>

fun mod_loop ::
  "(byte list \<Rightarrow> string) \<Rightarrow> (byte list \<Rightarrow> byte list option) \<Rightarrow> (mod_attr \<Rightarrow> fault option)
    \<Rightarrow> byte list \<Rightarrow> mod_attr list \<Rightarrow> hash_report list \<times> fault option" where
  "mod_loop sha_256 lzma_decompress other reading [] = ([], None)"
| "mod_loop sha_256 lzma_decompress other reading (m # ms) =
     (case mod_anl_row sha_256 lzma_decompress other reading m of
        Inl e \<Rightarrow> ([], Some e)
      | Inr r \<Rightarrow>
         (case mod_loop sha_256 lzma_decompress other reading ms of
            (rs, ended) \<Rightarrow> (r # rs, ended)))"

text \<open>
  \<open>mod_anl\<close>. With no row, \<open>cpd_all_attr[0]\<close> of line 2203 is out of range.
\<close>

definition mod_anl ::
  "(byte list \<Rightarrow> string) \<Rightarrow> (byte list \<Rightarrow> byte list option) \<Rightarrow> (mod_attr \<Rightarrow> fault option)
    \<Rightarrow> byte list \<Rightarrow> int \<Rightarrow> mod_attr list \<Rightarrow> hash_report list \<times> fault option" where
  "mod_anl sha_256 lzma_decompress other reading cpd_offset cpd_all_attr =
     (if cpd_offset > - 1
      then (if \<not> list_all mod_details_ok cpd_all_attr \<or> cpd_all_attr = []
            then ([], Some Uncaught_IndexError)
            else mod_loop sha_256 lzma_decompress other reading cpd_all_attr)
      else ([], None))"

text \<open>
  Sample data, with the values Python's library gives for them. \<open>lzma_stored\<close> is the
  LZMA-alone stream of the three bytes \<open>MEA\<close> (properties \<open>0x36\<close>, dictionary
  \<open>0x4000\<close>) with the three zero bytes at \<open>0xE\<close> that the firmware adds;
  \<open>lzma_corrupt\<close> starts like such a stream and continues with \<open>0xFF\<close> bytes, which
  the decoder rejects as corrupt input.
\<close>

definition lzma_stored :: "byte list" where
  "lzma_stored =
     [0x36, 0x00, 0x40, 0x00, 0x00, 0xFF, 0xFF, 0xFF, 0xFF, 0xFF, 0xFF, 0xFF, 0xFF, 0x00,
     0x00, 0x00, 0x00, 0x26, 0x91, 0x44, 0x75, 0x47, 0x2F, 0xFF, 0xFF, 0xF7, 0x3E, 0xC0,
     0x00]"

definition lzma_corrupt :: "byte list" where
  "lzma_corrupt =
     [0x36, 0x00, 0x40, 0x00, 0x00, 0xFF, 0xFF, 0xFF, 0xFF, 0xFF, 0xFF, 0xFF, 0xFF, 0xFF,
     0xFF, 0xFF, 0xFF, 0xFF, 0xFF, 0xFF, 0xFF, 0xFF, 0xFF, 0xFF, 0xFF]"

definition lzma_decompress_samples :: "byte list \<Rightarrow> byte list option" where
  "lzma_decompress_samples mod_data =
     (if mod_data = take 0xE lzma_stored @ drop 0x11 lzma_stored then Some [0x4D, 0x45, 0x41]
      else None)"

definition sha_256_samples :: "byte list \<Rightarrow> string" where
  "sha_256_samples mod_data =
     (if mod_data = lzma_stored
      then ''ba6f9604cdff67e963ae65d7abbd67aa3001ab39fe3a00e392f9533a677f8d9f''
      else if mod_data = [0x4D, 0x45, 0x41, 0xFF, 0xFF, 0xFF, 0xFF, 0xFF]
      then ''7b63c575568455c153a36b647e17eae869de247c740f16ea34023af530a407ee''
      else if mod_data = lzma_corrupt
      then ''8043a856a5b1450b85f82af867a696f902ece2c51764f03d505856cce4cae7bd''
      else [])"

definition lzma_row :: "nat \<Rightarrow> nat \<Rightarrow> nat \<Rightarrow> string \<Rightarrow> mod_attr" where
  "lzma_row encr sz_comp sz_uncomp h = \<lparr> mod_name = ''kernel'', mod_comp = 2, mod_encr = encr,
     mod_start = 0, mod_size_comp = sz_comp, mod_size_uncomp = sz_uncomp, mod_empty = 0,
     mod_hash = PyStr h, cpd_pname = ''FTPR'', ext_inid = 0,
     mn2_sigs = (False, PyInt (- 1), PyInt (- 1), True), cpd_poffset = 0, cpd_pvalid = True \<rparr>"

definition no_fault :: "mod_attr \<Rightarrow> fault option" where
  "no_fault m = None"

section \<open>\<open>rsa_sig_val\<close>: the manifest's RSA signature\<close>

text \<open>
  Lines 1732 to 1755. \<open>man_hdr_struct\<close> is the \<open>MN2_Manifest\<close> structure as
  \<open>get_struct\<close> returns it (\<open>0x284\<close> bytes): \<open>HeaderLength\<close> at \<open>0x04\<close>, \<open>Size\<close>
  at \<open>0x18\<close>, \<open>RsaPubKey\<close> (64 words) at \<open>0x80\<close>, \<open>RsaPubExp\<close> at \<open>0x180\<close>,
  \<open>RsaSig\<close> (64 words) at \<open>0x184\<close>. Key and signature become integers through the
  string of the words' \<open>'%0.8X'\<close> renderings, last word first. \<open>variant\<close> and
  \<open>major\<close> are globals of the script; \<open>sha1\<close> and \<open>sha256\<close> stand for the hexadecimal
  digests of \<open>hashlib\<close>, fed the two slices one after the other.

  \<open>pow(b, e, m)\<close> raises \<open>ValueError\<close> for \<open>m = 0\<close>; the \<open>except\<close> clause turns that
  into \<open>[False, 0, 0, True]\<close>. The two \<open>int(..., 16)\<close> calls stand before the \<open>try\<close>:
  an exception there would leave the function, which is the result \<open>None\<close>.
\<close>

definition struct_pack_I :: "nat \<Rightarrow> byte list" where
  "struct_pack_I val = map (\<lambda>k. of_nat (val div 256 ^ k mod 256)) [0, 1, 2, 3]"

definition field_u32_array :: "byte list \<Rightarrow> nat \<Rightarrow> nat \<Rightarrow> nat list" where
  "field_u32_array s k n = map (\<lambda>i. field_u32 s (k + 4 * i)) [0..<n]"

definition words_hex_reversed :: "nat list \<Rightarrow> string" where
  "words_hex_reversed vals =
     concat (map (\<lambda>val. format_0X 8 (from_bytes_little (struct_pack_I val))) (rev vals))"

definition man_key_int :: "byte list \<Rightarrow> nat \<Rightarrow> nat option" where
  "man_key_int man_hdr_struct off =
     int_base16 (words_hex_reversed (field_u32_array man_hdr_struct off 64))"

definition py_pow3 :: "nat \<Rightarrow> nat \<Rightarrow> nat \<Rightarrow> nat option" where
  "py_pow3 b e m = (if m = 0 then None else Some (b ^ e mod m))"

definition rsa_checked ::
  "(byte list \<Rightarrow> string) \<Rightarrow> nat \<Rightarrow> nat \<Rightarrow> byte list \<Rightarrow> mn2_sigs" where
  "rsa_checked sha digits dec data =
     (let dec_sign = hex_digits dec;
          dec_hash = str_last digits dec_sign;
          rsa_hash = str_upper (sha data)
      in (dec_hash = rsa_hash, PyStr dec_hash, PyStr rsa_hash, False))"

definition rsa_data :: "byte list \<Rightarrow> nat \<Rightarrow> nat \<Rightarrow> nat \<Rightarrow> byte list" where
  "rsa_data reading check_start man_hdr man_size =
     slice reading check_start (check_start + 0x80)
     @ slice reading (check_start + man_hdr) (check_start + man_size)"

definition rsa_sig_val ::
  "(byte list \<Rightarrow> string) \<Rightarrow> (byte list \<Rightarrow> string) \<Rightarrow> string \<Rightarrow> nat \<Rightarrow> byte list
    \<Rightarrow> byte list \<Rightarrow> nat \<Rightarrow> mn2_sigs option" where
  "rsa_sig_val sha1 sha256 variant major reading man_hdr_struct check_start =
     (let man_hdr = field_u32 man_hdr_struct 0x04 * 4;
          man_size = field_u32 man_hdr_struct 0x18 * 4;
          man_pexp = field_u32 man_hdr_struct 0x180;
          data = rsa_data reading check_start man_hdr man_size
      in (case man_key_int man_hdr_struct 0x80 of
            None \<Rightarrow> None
          | Some man_pkey \<Rightarrow>
         (case man_key_int man_hdr_struct 0x184 of
            None \<Rightarrow> None
          | Some man_sign \<Rightarrow>
         Some (case py_pow3 man_sign man_pexp man_pkey of
                 None \<Rightarrow> (False, PyInt 0, PyInt 0, True)
               | Some dec \<Rightarrow>
                  (if (variant = ''ME'' \<and> major < 6) \<or> (variant = ''SPS'' \<and> major < 2)
                   then rsa_checked sha1 40 dec data
                   else rsa_checked sha256 64 dec data)))))"

text \<open>
  A file that consists of one manifest: header length and size \<open>0xA1\<close> words (no data
  after the header), tag \<open>\$MN2\<close>, version 11.0.0.1000, modulus \<open>2 ^ 2047\<close>, public
  exponent 1, and as signature the SHA-256 digest of its own first \<open>0x80\<close> bytes, whose
  first hexadecimal digit is 0. \<open>sha256_at_sample\<close> holds that digest.
\<close>

definition rsa_sample :: "byte list" where
  "rsa_sample =
    [4, 0, 0, 0, 0xA1, 0, 0, 0, 0, 0, 1, 0, 0, 0, 0, 0, 0x86, 0x80, 0, 0, 1, 2, 0x17, 0x20,
     0xA1, 0, 0, 0, 0x24, 0x4D, 0x4E, 0x32, 0, 0, 0, 0, 0x0B, 0, 0, 0, 0, 0, 0xE8, 3, 0, 0,
     0, 0, 0, 0, 0, 0, 0, 0, 0, 0, 7, 0, 0, 0, 0, 0, 0, 0, 0, 0, 0, 0, 0, 0, 0, 0, 0, 0, 0,
     0, 0, 0, 0, 0, 0, 0, 0, 0, 0, 0, 0, 0, 0, 0, 0, 0, 0, 0, 0, 0, 0, 0, 0, 0, 0, 0, 0, 0,
     0, 0, 0, 0, 0, 0, 0, 0, 0, 0, 0, 0, 0, 0, 0, 0, 0x40, 0, 0, 0, 0, 0, 0, 0, 0, 0, 0, 0,
     0, 0, 0, 0, 0, 0, 0, 0, 0, 0, 0, 0, 0, 0, 0, 0, 0, 0, 0, 0, 0, 0, 0, 0, 0, 0, 0, 0, 0,
     0, 0, 0, 0, 0, 0, 0, 0, 0, 0, 0, 0, 0, 0, 0, 0, 0, 0, 0, 0, 0, 0, 0, 0, 0, 0, 0, 0, 0,
     0, 0, 0, 0, 0, 0, 0, 0, 0, 0, 0, 0, 0, 0, 0, 0, 0, 0, 0, 0, 0, 0, 0, 0, 0, 0, 0, 0, 0,
     0, 0, 0, 0, 0, 0, 0, 0, 0, 0, 0, 0, 0, 0, 0, 0, 0, 0, 0, 0, 0, 0, 0, 0, 0, 0, 0, 0, 0,
     0, 0, 0, 0, 0, 0, 0, 0, 0, 0, 0, 0, 0, 0, 0, 0, 0, 0, 0, 0, 0, 0, 0, 0, 0, 0, 0, 0, 0,
     0, 0, 0, 0, 0, 0, 0, 0, 0, 0, 0, 0, 0, 0, 0, 0, 0, 0, 0, 0, 0, 0, 0, 0, 0, 0, 0, 0, 0,
     0, 0, 0, 0, 0, 0, 0, 0, 0, 0, 0, 0, 0, 0, 0, 0, 0, 0, 0, 0, 0, 0, 0, 0, 0, 0, 0, 0, 0,
     0, 0, 0, 0, 0, 0, 0, 0, 0, 0, 0, 0, 0, 0, 0, 0, 0, 0, 0, 0, 0, 0, 0, 0, 0, 0, 0, 0, 0,
     0, 0, 0, 0, 0, 0, 0, 0, 0, 0, 0, 0, 0, 0, 0, 0, 0, 0, 0, 0x80, 1, 0, 0, 0, 0xA1, 0xCD,
     0xD8, 0x64, 0xF6, 0x86, 0x19, 0x33, 0x16, 0x45, 0xD1, 0xD2, 0x95, 0x48, 0x15, 0x7D,
     0x91, 0x0E, 0xAB, 0x42, 0x1F, 0x91, 0x7C, 0x3B, 0x92, 0x9E, 5, 0xE4, 0x30, 0xE1, 0x12,
     0x0B, 0, 0, 0, 0, 0, 0, 0, 0, 0, 0, 0, 0, 0, 0, 0, 0, 0, 0, 0, 0, 0, 0, 0, 0, 0, 0, 0,
     0, 0, 0, 0, 0, 0, 0, 0, 0, 0, 0, 0, 0, 0, 0, 0, 0, 0, 0, 0, 0, 0, 0, 0, 0, 0, 0, 0, 0,
     0, 0, 0, 0, 0, 0, 0, 0, 0, 0, 0, 0, 0, 0, 0, 0, 0, 0, 0, 0, 0, 0, 0, 0, 0, 0, 0, 0, 0,
     0, 0, 0, 0, 0, 0, 0, 0, 0, 0, 0, 0, 0, 0, 0, 0, 0, 0, 0, 0, 0, 0, 0, 0, 0, 0, 0, 0, 0,
     0, 0, 0, 0, 0, 0, 0, 0, 0, 0, 0, 0, 0, 0, 0, 0, 0, 0, 0, 0, 0, 0, 0, 0, 0, 0, 0, 0, 0,
     0, 0, 0, 0, 0, 0, 0, 0, 0, 0, 0, 0, 0, 0, 0, 0, 0, 0, 0, 0, 0, 0, 0, 0, 0, 0, 0, 0, 0,
     0, 0, 0, 0, 0, 0, 0, 0, 0, 0, 0, 0, 0, 0, 0, 0, 0, 0, 0, 0, 0, 0, 0, 0, 0, 0, 0, 0, 0,
     0, 0, 0, 0, 0, 0, 0, 0, 0, 0, 0, 0, 0, 0, 0, 0, 0, 0, 0, 0, 0, 0, 0]"

definition sha256_at_sample :: "byte list \<Rightarrow> string" where
  "sha256_at_sample data =
     (if data = take 0x80 rsa_sample
      then ''0b12e130e4059e923b7c911f42ab0e917d154895d2d14516331986f664d8cda1''
      else [])"

text \<open>Proof devices: \<open>k\<close> hexadecimal digits, and the value of little-endian words.\<close>

fun hexstr :: "nat \<Rightarrow> nat \<Rightarrow> string" where
  "hexstr 0 n = []"
| "hexstr (Suc k) n = hexstr k (n div 16) @ [hex_char (n mod 16)]"

fun le_words :: "nat list \<Rightarrow> nat" where
  "le_words [] = 0"
| "le_words (v # vs) = v + 2 ^ 32 * le_words vs"

section \<open>The walk over uncharted \$CPD partitions\<close>

text \<open>
  Lines 3477 to 3526 of the main loop: after the last charted partition, at
  \<open>p_end_last\<close>, the script consumes one \$CPD partition after the other. The variables
  the loop reads and writes are the state; all of them are initialised once per input
  file (lines 2781 to 2815: \<open>p_end_last\<close>, \<open>cpd_offset_last\<close> and \<open>cpd_end_last\<close>
  to 0, \<open>fpt_in_id\<close> to the empty string, \<open>fpt_part_all\<close> to the empty list) and
  \<open>p_end_last\<close> is set from the partition table before the loop. \<open>file_end\<close> is the
  length of \<open>reading\<close>.
\<close>

record walk_state =
  p_end_last :: nat
  cpd_offset_last :: nat
  cpd_end_last :: nat
  fpt_in_id :: string
  fpt_part_all :: "(byte list \<times> nat \<times> nat \<times> string) list"

datatype 'a loop_step = Break 'a | Next 'a

definition cpd_sig :: "byte list" where
  "cpd_sig = [0x24, 0x43, 0x50, 0x44]"

definition mn2_sig :: "byte list" where
  "mn2_sig = [0x24, 0x4D, 0x4E, 0x32]"

definition dot_met :: "byte list" where
  "dot_met = [0x2E, 0x6D, 0x65, 0x74]"

definition dot_man :: "byte list" where
  "dot_man = [0x2E, 0x6D, 0x61, 0x6E]"

text \<open>
  The fields of a \<open>CPD_Entry\<close> the walk uses: the name (\<open>char * 12\<close>), the offset
  decoded from \<open>OffsetAttrib\<close> (for which the decoding never raises) and \<open>Size\<close>.
\<close>

definition cpd_mod_off_of :: "nat \<Rightarrow> nat" where
  "cpd_mod_off_of OffsetAttrib =
     (case cpd_attr_decode (of_nat OffsetAttrib) of
        None \<Rightarrow> 0
      | Some (cpd_mod_off, cpd_mod_huff, cpd_mod_res) \<Rightarrow> cpd_mod_off)"

definition entry_is_metadata :: "byte list \<Rightarrow> bool" where
  "entry_is_metadata cpd_entry_hdr =
     (let cpd_entry_name = c_char_value (slice cpd_entry_hdr 0 0xC)
      in bytes_in dot_met cpd_entry_name \<or> bytes_in dot_man cpd_entry_name)"

text \<open>
  The \<open>for\<close> loop of lines 3502 to 3517 over the entry numbers \<open>range(1, cpd_num, 2)\<close>,
  on the pair \<open>(cpd_offset_last, cpd_end_last)\<close>; the \<open>else\<close> branch leaves the loop.
\<close>

fun cpd_entries_scan :: "byte list \<Rightarrow> nat \<Rightarrow> nat list \<Rightarrow> nat \<times> nat \<Rightarrow> fault + nat \<times> nat" where
  "cpd_entries_scan reading p [] trk = Inr trk"
| "cpd_entries_scan reading p (entry # entries) trk =
     (case get_struct (length reading) reading (p + 0x10 + entry * 0x18) 0x18 of
        Inl e \<Rightarrow> Inl e
      | Inr cpd_entry_hdr \<Rightarrow>
          (if \<not> entry_is_metadata cpd_entry_hdr
           then (let cpd_entry_offset = cpd_mod_off_of (field_u32 cpd_entry_hdr 0xC);
                     cpd_entry_size = field_u32 cpd_entry_hdr 0x10
                 in if cpd_entry_offset > fst trk
                    then cpd_entries_scan reading p entries
                           (cpd_entry_offset, cpd_entry_offset + cpd_entry_size)
                    else cpd_entries_scan reading p entries trk)
           else Inr trk))"

text \<open>
  Lines 3519 to 3526, once \<open>p_end_last_cont\<close> is known: the scan of the entries, the new
  end and the record of the partition (kept only with \<open>-unp86\<close>).
\<close>

definition cpd_walk_advance ::
  "bool \<Rightarrow> byte list \<Rightarrow> walk_state \<Rightarrow> nat \<Rightarrow> byte list \<Rightarrow> nat \<Rightarrow> fault + walk_state" where
  "cpd_walk_advance me11_mod_extr reading st cpd_num cpd_tag p_end_last_cont =
     (case cpd_entries_scan reading (p_end_last st) (filter odd [1..<cpd_num])
             (cpd_offset_last st, cpd_end_last st) of
        Inl e \<Rightarrow> Inl e
      | Inr trk \<Rightarrow>
          (let fpt_off_start = p_end_last st;
               p_end = p_end_last st + max p_end_last_cont (snd trk)
           in Inr (st \<lparr> p_end_last := p_end, cpd_offset_last := fst trk,
                      cpd_end_last := snd trk,
                      fpt_part_all :=
                        (if me11_mod_extr
                         then fpt_part_all st @ [(cpd_tag, fpt_off_start, p_end, fpt_in_id st)]
                         else fpt_part_all st) \<rparr>)))"

text \<open>
  Lines 3486 to 3499, from the manifest that follows the entries: the Extension 0x03
  behind the manifest header gives \<open>fpt_in_id\<close> and, when its partition name is the
  directory's, \<open>PartitionSize\<close>; the two failed sanity checks leave the \<open>while\<close> loop.
\<close>

definition cpd_walk_ext03 ::
  "bool \<Rightarrow> byte list \<Rightarrow> walk_state \<Rightarrow> nat \<Rightarrow> byte list \<Rightarrow> nat
    \<Rightarrow> fault + walk_state loop_step" where
  "cpd_walk_ext03 me11_mod_extr reading st cpd_num cpd_tag ext_start =
     (case get_struct (length reading) reading ext_start 0x58 of
        Inl e \<Rightarrow> Inl e
      | Inr cpd_ext_03 \<Rightarrow>
          (let st1 = st \<lparr> fpt_in_id := format_0X 4 (field_u32 cpd_ext_03 0x3C) \<rparr>
           in if c_char_value (slice cpd_ext_03 0x8 0xC) = cpd_tag
              then (case cpd_walk_advance me11_mod_extr reading st1 cpd_num cpd_tag
                           (field_u32 cpd_ext_03 0xC) of
                      Inl e \<Rightarrow> Inl e
                    | Inr st2 \<Rightarrow> Inr (Next st2))
              else Inr (Break st1)))"

text \<open>One pass through the body of the \<open>while\<close> loop, lines 3479 to 3526.\<close>

definition cpd_walk_body :: "bool \<Rightarrow> byte list \<Rightarrow> walk_state \<Rightarrow> fault + walk_state loop_step" where
  "cpd_walk_body me11_mod_extr reading st =
     (case get_struct (length reading) reading (p_end_last st) 0x10 of
        Inl e \<Rightarrow> Inl e
      | Inr cpd_hdr \<Rightarrow>
          (let cpd_num = field_u32 cpd_hdr 0x4;
               cpd_tag = c_char_value (slice cpd_hdr 0xC 0x10);
               mn2_start = p_end_last st + 0x10 + cpd_num * 0x18
           in (case get_struct (length reading) reading mn2_start 0x284 of
                 Inl e \<Rightarrow> Inl e
               | Inr mn2_hdr \<Rightarrow>
                   (if c_char_value (slice mn2_hdr 0x1C 0x20) = mn2_sig
                    then cpd_walk_ext03 me11_mod_extr reading st cpd_num cpd_tag
                           (mn2_start + field_u32 mn2_hdr 0x4 * 4)
                    else Inr (Break st)))))"

text \<open>
  The \<open>while\<close> loop of line 3477. Its result is the state after the loop, or the
  out-of-bounds exit of \<open>get_struct\<close>; \<open>None\<close> is a loop that never ends.
\<close>

partial_function (option) cpd_walk ::
  "bool \<Rightarrow> byte list \<Rightarrow> walk_state \<Rightarrow> (fault + walk_state) option" where
  "cpd_walk me11_mod_extr reading st =
     (if slice reading (p_end_last st) (p_end_last st + 0x4) = cpd_sig
      then (case cpd_walk_body me11_mod_extr reading st of
              Inl e \<Rightarrow> Some (Inl e)
            | Inr (Break st1) \<Rightarrow> Some (Inr st1)
            | Inr (Next st1) \<Rightarrow> cpd_walk me11_mod_extr reading st1)
      else Some (Inr st))"

definition walk_init :: "nat \<Rightarrow> walk_state" where
  "walk_init p = \<lparr> p_end_last = p, cpd_offset_last = 0, cpd_end_last = 0, fpt_in_id = [],
     fpt_part_all = [] \<rparr>"

text \<open>
  Two files that start with an uncharted \$CPD partition \<open>WCOD\<close> at offset 0, put
  together from their structures: the directory header (\<open>0x10\<close> bytes), the entries
  (\<open>0x18\<close> bytes each), the manifest (\<open>0x284\<close> bytes: tag \<open>\$MN2\<close>, header length
  \<open>0xA1\<close> words) and the Extension 0x03 (\<open>0x58\<close> bytes) behind it. \<open>wcod_empty\<close> has
  the single entry \<open>WCOD.man\<close> and \<open>PartitionSize\<close> 0; \<open>wcod_two_modules\<close> has the
  entries \<open>WCOD.man\<close>, \<open>mod_a\<close>, \<open>mod_a.met\<close> and \<open>mod_b\<close>, and \<open>PartitionSize\<close>
  \<open>0x100\<close>.
\<close>

definition wcod_dir_1 :: "byte list" where
  "wcod_dir_1 =
    [0x24, 0x43, 0x50, 0x44, 1, 0, 0, 0, 1, 1, 0x10, 0, 0x57, 0x43, 0x4F, 0x44]"

definition wcod_dir_4 :: "byte list" where
  "wcod_dir_4 =
    [0x24, 0x43, 0x50, 0x44, 4, 0, 0, 0, 1, 1, 0x10, 0, 0x57, 0x43, 0x4F, 0x44]"

definition wcod_man_1 :: "byte list" where
  "wcod_man_1 =
    [0x57, 0x43, 0x4F, 0x44, 0x2E, 0x6D, 0x61, 0x6E, 0, 0, 0, 0, 0x28, 0, 0, 0, 0xDC, 2, 0,
     0, 0, 0, 0, 0]"

definition wcod_man_4 :: "byte list" where
  "wcod_man_4 =
    [0x57, 0x43, 0x4F, 0x44, 0x2E, 0x6D, 0x61, 0x6E, 0, 0, 0, 0, 0x70, 0, 0, 0, 0xDC, 2, 0,
     0, 0, 0, 0, 0]"

definition wcod_mod_a :: "byte list" where
  "wcod_mod_a =
    [0x6D, 0x6F, 0x64, 0x5F, 0x61, 0, 0, 0, 0, 0, 0, 0, 0, 4, 0, 0, 0, 3, 0, 0, 0, 0, 0, 0]"

definition wcod_mod_a_met :: "byte list" where
  "wcod_mod_a_met =
    [0x6D, 0x6F, 0x64, 0x5F, 0x61, 0x2E, 0x6D, 0x65, 0x74, 0, 0, 0, 0x4C, 3, 0, 0, 0x60, 0,
     0, 0, 0, 0, 0, 0]"

definition wcod_mod_b :: "byte list" where
  "wcod_mod_b =
    [0x6D, 0x6F, 0x64, 0x5F, 0x62, 0, 0, 0, 0, 0, 0, 0, 0, 5, 0, 0, 0x10, 0, 0, 0, 0, 0, 0,
     0]"

definition wcod_ext03_0 :: "byte list" where
  "wcod_ext03_0 =
    [3, 0, 0, 0, 0x58, 0, 0, 0, 0x57, 0x43, 0x4F, 0x44, 0, 0, 0, 0, 0, 0, 0, 0, 0, 0, 0, 0,
     0, 0, 0, 0, 0, 0, 0, 0, 0, 0, 0, 0, 0, 0, 0, 0, 0, 0, 0, 0, 0, 0, 0, 0, 0, 0, 0, 0, 0,
     0, 0, 0, 0, 0, 0, 0, 0, 0, 0, 0, 0, 0, 0, 0, 0, 0, 0, 0, 0, 0, 0, 0, 0, 0, 0, 0, 0, 0,
     0, 0, 0, 0, 0, 0]"

definition wcod_ext03_100 :: "byte list" where
  "wcod_ext03_100 =
    [3, 0, 0, 0, 0x58, 0, 0, 0, 0x57, 0x43, 0x4F, 0x44, 0, 1, 0, 0, 0, 0, 0, 0, 0, 0, 0, 0,
     0, 0, 0, 0, 0, 0, 0, 0, 0, 0, 0, 0, 0, 0, 0, 0, 0, 0, 0, 0, 0, 0, 0, 0, 0, 0, 0, 0, 0,
     0, 0, 0, 0, 0, 0, 0, 0, 0, 0, 0, 0, 0, 0, 0, 0, 0, 0, 0, 0, 0, 0, 0, 0, 0, 0, 0, 0, 0,
     0, 0, 0, 0, 0, 0]"

definition wcod_manifest :: "byte list" where
  "wcod_manifest =
    [4, 0, 0, 0, 0xA1, 0, 0, 0, 0, 0, 1, 0, 0, 0, 0, 0, 0x86, 0x80, 0, 0, 1, 2, 0x17, 0x20,
     0xB7, 0, 0, 0, 0x24, 0x4D, 0x4E, 0x32, 0, 0, 0, 0, 0x0B, 0, 0, 0, 0, 0, 0xE8, 3]
    @ replicate 0x258 0"

definition wcod_empty :: "byte list" where
  "wcod_empty = wcod_dir_1 @ wcod_man_1 @ wcod_manifest @ wcod_ext03_0"

definition wcod_two_modules :: "byte list" where
  "wcod_two_modules =
     wcod_dir_4 @ wcod_man_4 @ wcod_mod_a @ wcod_mod_a_met @ wcod_mod_b @ wcod_manifest
     @ wcod_ext03_100"

section \<open>The inferred size of an uncharted \$CPD partition, stated\<close>

text \<open>
  What a pass of the loop reads, named by position: the directory entry number \<open>entry\<close>
  of the partition at \<open>p\<close>, and the \<open>PartitionSize\<close> field of the Extension 0x03
  that follows the manifest header behind the entries.
\<close>

definition cpd_entry_at :: "byte list \<Rightarrow> nat \<Rightarrow> nat \<Rightarrow> byte list" where
  "cpd_entry_at reading p entry =
     slice reading (p + 0x10 + entry * 0x18) (p + 0x10 + entry * 0x18 + 0x18)"

definition cpd_entry_offset_size :: "byte list \<Rightarrow> nat \<times> nat" where
  "cpd_entry_offset_size cpd_entry_hdr =
     (cpd_mod_off_of (field_u32 cpd_entry_hdr 0xC), field_u32 cpd_entry_hdr 0x10)"

definition cpd_num_at :: "byte list \<Rightarrow> nat \<Rightarrow> nat" where
  "cpd_num_at reading p = field_u32 (slice reading p (p + 0x10)) 0x4"

definition cpd_partition_size :: "byte list \<Rightarrow> nat \<Rightarrow> nat" where
  "cpd_partition_size reading p =
     (let mn2_start = p + 0x10 + cpd_num_at reading p * 0x18;
          man_len = field_u32 (slice reading mn2_start (mn2_start + 0x284)) 0x4 * 4;
          cpd_ext_03 = slice reading (mn2_start + man_len) (mn2_start + man_len + 0x58)
      in field_u32 cpd_ext_03 0xC)"

text \<open>
  The size as the specification words it: the larger of \<open>PartitionSize\<close> and the
  maximum of offset + size over all entries of the partition that are not metadata.
\<close>

definition claimed_cpd_size :: "byte list \<Rightarrow> nat \<Rightarrow> nat" where
  "claimed_cpd_size reading p =
     max (cpd_partition_size reading p)
       (foldr max
          (map (\<lambda>e. fst (cpd_entry_offset_size e) + snd (cpd_entry_offset_size e))
             (filter (\<lambda>e. \<not> entry_is_metadata e)
                (map (cpd_entry_at reading p) [0..<cpd_num_at reading p])))
          0)"

text \<open>
  The size as the loop computes it. The entries it looks at are those with an odd
  number, up to the first of them whose name contains \<open>.met\<close> or \<open>.man\<close>; of these it
  keeps the end (offset + size) of the first entry that has the greatest offset, provided
  that offset is positive.
\<close>

definition scanned_entries :: "byte list \<Rightarrow> nat \<Rightarrow> (nat \<times> nat) list" where
  "scanned_entries reading p =
     map cpd_entry_offset_size
       (takeWhile (\<lambda>e. \<not> entry_is_metadata e)
          (map (cpd_entry_at reading p) (filter odd [1..<cpd_num_at reading p])))"

definition end_of_greatest_offset :: "nat \<Rightarrow> (nat \<times> nat) list \<Rightarrow> nat \<times> nat \<Rightarrow> nat \<times> nat" where
  "end_of_greatest_offset ol es dflt =
     (case find (\<lambda>e. ol < fst e \<and> (\<forall>e' \<in> set es. fst e' \<le> fst e)) es of
        None \<Rightarrow> dflt
      | Some e \<Rightarrow> (fst e, fst e + snd e))"

definition inferred_cpd_size :: "byte list \<Rightarrow> nat \<Rightarrow> nat" where
  "inferred_cpd_size reading p =
     max (cpd_partition_size reading p)
       (snd (end_of_greatest_offset 0 (scanned_entries reading p) (0, 0)))"

text \<open>Proof device: the tracker update of the scan on a list of (offset, size) pairs.\<close>

fun track :: "(nat \<times> nat) list \<Rightarrow> nat \<times> nat \<Rightarrow> nat \<times> nat" where
  "track [] trk = trk"
| "track (e # es) trk = track es (if fst e > fst trk then (fst e, fst e + snd e) else trk)"

section \<open>The main loop over the input files\<close>

text \<open>
  Lines 2718 to 5034: \<open>for file_in in source\<close>, where \<open>source\<close> holds the files of the
  command line or, with \<open>-mass\<close>, all files of a directory. A file is modelled by its
  contents \<open>reading\<close>. The part of the body modelled in full is the one for a file
  without manifest (lines 2878 to 2985), which ends in \<open>continue\<close>; the analysis of a file
  with a manifest (lines 2987 to 5030) is the parameter \<open>engine_found\<close>. Nothing in the
  loop catches \<open>SystemExit\<close>: \<open>sys.exit\<close> inside the body ends the run.
\<close>

text \<open>A slice whose bounds are integers of either sign.\<close>

definition py_index :: "nat \<Rightarrow> int \<Rightarrow> nat" where
  "py_index n i = (if i < 0 then nat (max 0 (int n + i)) else min (nat i) n)"

definition py_slice :: "'a list \<Rightarrow> int \<Rightarrow> int \<Rightarrow> 'a list" where
  "py_slice xs i j = slice xs (py_index (length xs) i) (py_index (length xs) j)"

text \<open>
  \<open>re.compile(pat).search(data)\<close> for the patterns of this part, which are sequences
  of fixed bytes and of \<open>.\<close> (any byte, under \<open>re.DOTALL\<close>): the start of the first
  match.
\<close>

fun pat_at :: "byte option list \<Rightarrow> byte list \<Rightarrow> bool" where
  "pat_at [] bs = True"
| "pat_at (p # ps) [] = False"
| "pat_at (p # ps) (b # bs) = ((case p of None \<Rightarrow> True | Some c \<Rightarrow> b = c) \<and> pat_at ps bs)"

fun re_search_from :: "nat \<Rightarrow> byte option list \<Rightarrow> byte list \<Rightarrow> nat option" where
  "re_search_from i pat [] = (if pat_at pat [] then Some i else None)"
| "re_search_from i pat (b # bs) =
     (if pat_at pat (b # bs) then Some i else re_search_from (Suc i) pat bs)"

definition re_search :: "byte option list \<Rightarrow> byte list \<Rightarrow> nat option" where
  "re_search pat data = re_search_from 0 pat data"

definition man_pat_mn2 :: "byte option list" where
  "man_pat_mn2 = map Some [0x00, 0x24, 0x4D, 0x4E, 0x32]"

definition man_pat_man :: "byte option list" where
  "man_pat_man = map Some [0x00, 0x24, 0x4D, 0x41, 0x4E]"

definition tekoa_pat :: "byte option list" where
  "tekoa_pat = map Some [0x54, 0x65, 0x6B, 0x6F, 0x61, 0x41, 0x70, 0x70]"

definition provision_pat :: "byte option list" where
  "provision_pat = map Some [0x50, 0x72, 0x6F, 0x76, 0x69, 0x73, 0x69, 0x6F, 0x6E, 0x53, 0x65,
     0x72, 0x76, 0x65, 0x72]"

definition fpt_pat :: "byte option list" where
  "fpt_pat = map Some [0x24, 0x46, 0x50, 0x54] @ [None] @ map Some [0x00, 0x00, 0x00]"

definition fd_pat_pch :: "byte option list" where
  "fd_pat_pch = map Some [0xFF, 0xFF, 0xFF, 0xFF, 0x5A, 0xA5, 0xF0, 0x0F]"

definition fd_pat_ich :: "byte option list" where
  "fd_pat_ich = map Some [0x5A, 0xA5, 0xF0, 0x0F] @ replicate 172 None @ replicate 16 (Some 0xFF)"

text \<open>\<open>spi_fd_init\<close>, lines 1593 to 1607: \<open>(fd_exist, start_fd_match, end_fd_match)\<close>.\<close>

definition spi_fd_init :: "byte list \<Rightarrow> bool \<times> int \<times> int" where
  "spi_fd_init reading =
     (case re_search fd_pat_pch reading of
        Some start \<Rightarrow> (True, int start - 0xC, int (start + 8) - 0x0)
      | None \<Rightarrow>
          (case re_search fd_pat_ich reading of
             Some start \<Rightarrow> (True, int start - 0x0, int (start + 192) - (0xBC - 0x10))
           | None \<Rightarrow> (False, 0, 0)))"

text \<open>
  \<open>spi_fd('region', ...)\<close>, lines 1632 to 1653: for the BIOS and for the Engine region
  whether it exists, its start and its size.
\<close>

definition spi_fd_region ::
  "byte list \<Rightarrow> int \<Rightarrow> int \<Rightarrow> (bool \<times> int \<times> int) \<times> (bool \<times> int \<times> int)" where
  "spi_fd_region reading start_fd_match end_fd_match =
     (let bios_fd_base = int (from_bytes_little (py_slice reading (end_fd_match + 0x30) (end_fd_match + 0x32)));
          bios_fd_limit = int (from_bytes_little (py_slice reading (end_fd_match + 0x32) (end_fd_match + 0x34)));
          me_fd_base = int (from_bytes_little (py_slice reading (end_fd_match + 0x34) (end_fd_match + 0x36)));
          me_fd_limit = int (from_bytes_little (py_slice reading (end_fd_match + 0x36) (end_fd_match + 0x38)))
      in ((if bios_fd_limit \<noteq> 0
           then (True, bios_fd_base * 0x1000 + start_fd_match,
                 (bios_fd_limit + 1 - bios_fd_base) * 0x1000)
           else (False, 0, 0)),
          (if me_fd_limit \<noteq> 0
           then (True, me_fd_base * 0x1000 + start_fd_match,
                 (me_fd_limit + 1 - me_fd_base) * 0x1000)
           else (False, 0, 0))))"

text \<open>
  \<open>fuj_umem_ver\<close>, lines 1666 to 1677: the version quadruple behind the header
  \<open>UMEM\<close>, or \<open>None\<close> for the string \<open>NaN\<close>. Each number is
  \<open>int(binascii.b2a_hex(bytes[::-1]), 16)\<close>, the little-endian value of two bytes;
  \<open>int\<close> raises \<open>ValueError\<close> on the empty string of a slice that lies beyond the file.
\<close>

definition fuj_umem_ver :: "byte list \<Rightarrow> int \<Rightarrow> fault + nat list option" where
  "fuj_umem_ver reading me_fd_start =
     (if py_slice reading me_fd_start (me_fd_start + 0x4) = [0x55, 0x4D, 0xC9, 0x4D]
      then (let fields = map (\<lambda>k. py_slice reading (me_fd_start + k) (me_fd_start + k + 2))
                           [0xB, 0xD, 0xF, 0x11]
            in if [] \<in> set fields then Inl Uncaught_ValueError
               else Inr (Some (map from_bytes_little fields)))
      else Inr None)"

text \<open>
  What the script reports for a file without manifest (\<open>no_man_text\<close>, without the
  wording). \<open>Unknown_FPT\<close> carries the FIT version of the \<open>\$FPT\<close> header when its
  build number is neither 0 nor 65535.
\<close>

datatype no_man_text =
  Fujitsu_Compressed "nat list" | Foxconn_X58_Test | Unidentifiable_Engine | ME_Recovery_Module
  | Unknown_FPT "nat list option" | No_Engine_Firmware

definition me_rec_guid :: "byte list" where
  "me_rec_guid = [0x0C, 0x11, 0x1D, 0x82, 0xA3, 0xD0, 0xF7, 0x4C, 0xAE, 0xF3, 0xE2, 0x80, 0x88,
     0x49, 0x17, 0x04]"

definition foxconn_hdr :: "byte list" where
  "foxconn_hdr = [0xD0, 0x3F, 0xDA, 0x00, 0xC8, 0xB9, 0xB2, 0x00]"

definition field_u16 :: "byte list \<Rightarrow> nat \<Rightarrow> nat" where
  "field_u16 s k = from_bytes_little (slice s k (k + 2))"

text \<open>Lines 2948 to 2962: the file holds a \<open>\$FPT\<close>; its header is read with \<open>get_struct\<close>.\<close>

definition fpt_only_text :: "byte list \<Rightarrow> nat \<Rightarrow> fault + no_man_text" where
  "fpt_only_text reading start_fw_start_match =
     (case get_struct (length reading) reading start_fw_start_match 0x20 of
        Inl e \<Rightarrow> Inl e
      | Inr fpt_hdr \<Rightarrow>
          (if field_u16 fpt_hdr 0x1E \<noteq> 0 \<and> field_u16 fpt_hdr 0x1E \<noteq> 65535
           then Inr (Unknown_FPT (Some [field_u16 fpt_hdr 0x18, field_u16 fpt_hdr 0x1A,
                                         field_u16 fpt_hdr 0x1C, field_u16 fpt_hdr 0x1E]))
           else Inr (Unknown_FPT None)))"

text \<open>Lines 2920 to 2966: no Engine region of a flash descriptor.\<close>

definition no_region_text :: "byte list \<Rightarrow> fault + no_man_text" where
  "no_region_text reading =
     (case fuj_umem_ver reading 0 of
        Inl e \<Rightarrow> Inl e
      | Inr fuj_version \<Rightarrow>
          (if slice reading 0 0x10 = me_rec_guid then Inr ME_Recovery_Module
           else
            (case fuj_version of
               Some v \<Rightarrow> Inr (Fujitsu_Compressed v)
             | None \<Rightarrow>
                 (if slice reading 0 8 = foxconn_hdr then Inr Foxconn_X58_Test
                  else
                   (case re_search fpt_pat reading of
                      Some start \<Rightarrow> fpt_only_text reading start
                    | None \<Rightarrow> Inr No_Engine_Firmware)))))"

text \<open>Lines 2898 to 2917: an Engine region exists but holds no manifest.\<close>

definition region_text :: "byte list \<Rightarrow> int \<Rightarrow> fault + no_man_text" where
  "region_text reading me_fd_start =
     (case fuj_umem_ver reading me_fd_start of
        Inl e \<Rightarrow> Inl e
      | Inr (Some v) \<Rightarrow> Inr (Fujitsu_Compressed v)
      | Inr None \<Rightarrow>
          (if py_slice reading me_fd_start (me_fd_start + 0x8) = foxconn_hdr
           then Inr Foxconn_X58_Test
           else Inr Unidentifiable_Engine))"

definition no_manifest_text :: "byte list \<Rightarrow> fault + no_man_text" where
  "no_manifest_text reading =
     (case spi_fd_init reading of
        (fd_exist, start_fd_match, end_fd_match) \<Rightarrow>
          (if fd_exist
           then (case snd (spi_fd_region reading start_fd_match end_fd_match) of
                   (fd_me_rgn_exist, me_fd_start, me_fd_size) \<Rightarrow>
                     (if fd_me_rgn_exist then region_text reading me_fd_start
                      else no_region_text reading))
           else no_region_text reading))"

text \<open>
  Lines 2878 to 2987: \<open>man_match\<close> is the first manifest pattern or, in a file with
  \<open>TekoaApp\<close>, the pattern \<open>ProvisionServer\<close>. The result for one file is the report
  for a file without manifest or the result of the analysis of a file with one.
\<close>

definition man_match_found :: "byte list \<Rightarrow> bool" where
  "man_match_found reading =
     (if re_search man_pat_mn2 reading \<noteq> None \<or> re_search man_pat_man reading \<noteq> None then True
      else if re_search tekoa_pat reading \<noteq> None then re_search provision_pat reading \<noteq> None
      else False)"

definition analyse_file :: "(byte list \<Rightarrow> fault + 'r) \<Rightarrow> byte list \<Rightarrow> fault + no_man_text + 'r" where
  "analyse_file engine_found reading =
     (if \<not> man_match_found reading
      then (case no_manifest_text reading of Inl e \<Rightarrow> Inl e | Inr t \<Rightarrow> Inr (Inl t))
      else (case engine_found reading of Inl e \<Rightarrow> Inl e | Inr r \<Rightarrow> Inr (Inr r)))"

text \<open>
  The loop: the results of the files processed so far, and the fault that ended the run
  or \<open>None\<close> when the loop came to its end (and \<open>mea_exit(0)\<close>).
\<close>

fun main_loop ::
  "(byte list \<Rightarrow> fault + 'r) \<Rightarrow> byte list list \<Rightarrow> (no_man_text + 'r) list
    \<Rightarrow> (no_man_text + 'r) list \<times> fault option" where
  "main_loop engine_found [] results = (results, None)"
| "main_loop engine_found (reading # source) results =
     (case analyse_file engine_found reading of
        Inl e \<Rightarrow> (results, Some e)
      | Inr r \<Rightarrow> main_loop engine_found source (results @ [r]))"

text \<open>
  Two files: eight bytes that match the \<open>\$FPT\<close> pattern, an image cut off inside the
  header of its partition table, and a single zero byte.
\<close>

definition fpt_cut_off :: "byte list" where
  "fpt_cut_off = [0x24, 0x46, 0x50, 0x54, 0x00, 0x00, 0x00, 0x00]"

definition zero_byte_file :: "byte list" where
  "zero_byte_file = [0x00]"

section \<open>\<open>ext_anl\<close>: the loop over the extensions of a manifest or metadata\<close>

text \<open>
  Lines 1966 to 2089, for one \$CPD entry whose name contains \<open>.man\<close> or \<open>.met\<close>. The
  model keeps what decides how the loop runs: the offsets, the tag, the counter
  \<open>loop_break\<close>, the errors added to \<open>err_stor\<close>, every \<open>get_struct\<close> call and
  every strict \<open>decode('utf-8')\<close> of a name read inside the loop. The rows and hashes the
  loop collects, and the memory its strings take, are left out. The name of the entry
  itself is decoded before the loop (line 1968), so the same decoding inside the loop
  cannot raise.
\<close>

text \<open>
  \<open>bytes.decode('utf-8')\<close> raises \<open>UnicodeDecodeError\<close> unless the bytes are
  well-formed UTF-8: no stray or missing continuation byte, no overlong form, no
  surrogate, nothing above \<open>U+10FFFF\<close>.
\<close>

definition utf8_cont :: "byte \<Rightarrow> bool" where
  "utf8_cont c = (0x80 \<le> c \<and> c \<le> 0xBF)"

definition utf8_second3 :: "byte \<Rightarrow> byte \<Rightarrow> bool" where
  "utf8_second3 b c =
     (if b = 0xE0 then 0xA0 \<le> c \<and> c \<le> 0xBF
      else if b = 0xED then 0x80 \<le> c \<and> c \<le> 0x9F
      else utf8_cont c)"

definition utf8_second4 :: "byte \<Rightarrow> byte \<Rightarrow> bool" where
  "utf8_second4 b c =
     (if b = 0xF0 then 0x90 \<le> c \<and> c \<le> 0xBF
      else if b = 0xF4 then 0x80 \<le> c \<and> c \<le> 0x8F
      else utf8_cont c)"

fun utf8_decodable :: "byte list \<Rightarrow> bool" where
  "utf8_decodable [] = True"
| "utf8_decodable (b # bs) =
     (if b < 0x80 then utf8_decodable bs
      else if 0xC2 \<le> b \<and> b \<le> 0xDF
      then (case bs of c1 # r \<Rightarrow> utf8_cont c1 \<and> utf8_decodable r | _ \<Rightarrow> False)
      else if 0xE0 \<le> b \<and> b \<le> 0xEF
      then (case bs of
              c1 # c2 # r \<Rightarrow> utf8_second3 b c1 \<and> utf8_cont c2 \<and> utf8_decodable r
            | _ \<Rightarrow> False)
      else if 0xF0 \<le> b \<and> b \<le> 0xF4
      then (case bs of
              c1 # c2 # c3 # r \<Rightarrow>
                utf8_second4 b c1 \<and> utf8_cont c2 \<and> utf8_cont c3 \<and> utf8_decodable r
            | _ \<Rightarrow> False)
      else False)"

text \<open>
  A structure type of \<open>ext_dict\<close> is given by its size (\<open>ctypes.sizeof\<close>, the sum of
  its packed fields) and by the \<open>char\<close> fields, as (offset, length), that its
  \<open>ext_print\<close> method decodes; the methods do nothing else that can raise.
  \<open>ext_dict\<close> lists the structures \<open>CPD_Ext_XX\<close> by tag and \<open>ext_dict_mod\<close> the
  structures \<open>CPD_Ext_XX_Mod\<close>. A tag is in \<open>ext_tag_all\<close> exactly when it is a key of
  \<open>ext_dict\<close>.
\<close>

type_synonym struct_type = "nat \<times> (nat \<times> nat) list"

definition ext_dict :: "(nat \<times> struct_type) list" where
  "ext_dict =
    [(0x00, 0x40, []), (0x01, 0x10, []), (0x02, 0xC, []), (0x03, 0x58, [(0x8, 4)]), (0x04,
     0x1C, []), (0x05, 0x46, []), (0x06, 0x8, []), (0x07, 0x8, []), (0x08, 0x8, []),
     (0x09, 0xC, []), (0x0A, 0x38, []), (0x0B, 0x8, []), (0x0C, 0x30, []), (0x0D, 0x8,
     []), (0x0E, 0x24, []), (0x0F, 0x34, [(0x8, 4)]), (0x10, 0x60, []), (0x12, 0x1C, []),
     (0x13, 0xB4, []), (0x14, 0x148, []), (0x15, 0x34, []), (0x32, 0x10, [(0x8, 4)])]"

definition ext_dict_mod :: "(nat \<times> struct_type) list" where
  "ext_dict_mod =
    [(0x00, 0xC, [(0x0, 4)]), (0x01, 0x18, [(0x0, 4), (0x4, 12)]), (0x02, 0x4, []), (0x03,
     0x34, [(0x0, 12)]), (0x06, 0x10, []), (0x07, 0x8, []), (0x08, 0xC, []), (0x09, 0x18,
     [(0x0, 12)]), (0x0B, 0x8, []), (0x0D, 0x34, []), (0x0E, 0x44, []), (0x0F, 0x34,
     [(0x0, 12)]), (0x12, 0x38, [])]"

definition ext_tag_all :: "nat list" where
  "ext_tag_all = [0..<17] @ [18..<22] @ [50]"

definition decodes_ok :: "(nat \<times> nat) list \<Rightarrow> byte list \<Rightarrow> bool" where
  "decodes_ok chars hdr =
     list_all (\<lambda>(off, len). utf8_decodable (c_char_value (slice hdr off (off + len)))) chars"

text \<open>
  The inner \<open>while cpd_mod_offset < cpd_ext_offset + cpd_ext_size\<close> loops (lines 2001,
  2014, 2051): one structure of \<open>mod_length\<close> bytes per pass, read with \<open>get_struct\<close>
  and decoded. Every structure has a positive size; the test for it only makes the
  definition total.
\<close>

function mods_scan :: "byte list \<Rightarrow> (nat \<times> nat) list \<Rightarrow> nat \<Rightarrow> nat \<Rightarrow> nat \<Rightarrow> fault + unit" where
  "mods_scan reading chars mod_length stop cpd_mod_offset =
     (if cpd_mod_offset < stop \<and> 0 < mod_length
      then (case get_struct (length reading) reading cpd_mod_offset mod_length of
              Inl e \<Rightarrow> Inl e
            | Inr mod_hdr_p \<Rightarrow>
                (if decodes_ok chars mod_hdr_p
                 then mods_scan reading chars mod_length stop (cpd_mod_offset + mod_length)
                 else Inl Uncaught_UnicodeDecodeError))
      else Inr ())"
  by pat_completeness auto

termination
  by (relation "measure (\<lambda>(reading, chars, mod_length, stop, cpd_mod_offset). stop - cpd_mod_offset)")
    auto

declare mods_scan.simps [simp del]

definition struct_only :: "byte list \<Rightarrow> nat \<Rightarrow> nat \<Rightarrow> fault + unit" where
  "struct_only reading off struct_len =
     (case get_struct (length reading) reading off struct_len of
        Inl e \<Rightarrow> Inl e
      | Inr hdr \<Rightarrow> Inr ())"

text \<open>Lines 1989 to 2006, run with \<open>-unp86\<close>: the extension and its modules are printed.\<close>

definition ext_print_block :: "byte list \<Rightarrow> nat \<Rightarrow> nat \<Rightarrow> nat \<Rightarrow> fault + unit" where
  "ext_print_block reading tag cpd_ext_offset cpd_ext_size =
     (case map_of ext_dict tag of
        None \<Rightarrow> Inr ()
      | Some (ext_length, chars) \<Rightarrow>
          (case get_struct (length reading) reading cpd_ext_offset ext_length of
             Inl e \<Rightarrow> Inl e
           | Inr ext_hdr_p \<Rightarrow>
               (if \<not> decodes_ok chars ext_hdr_p then Inl Uncaught_UnicodeDecodeError
                else
                 (case map_of ext_dict_mod tag of
                    None \<Rightarrow> Inr ()
                  | Some (mod_length, mod_chars) \<Rightarrow>
                      mods_scan reading mod_chars mod_length (cpd_ext_offset + cpd_ext_size)
                        (cpd_ext_offset + ext_length)))))"

text \<open>
  Lines 2008 to 2076, the extensions the analysis uses: tags 3 and 15 read their header
  and then one \<open>CPD_Ext_03_Mod\<close> or \<open>CPD_Ext_0F_Mod\<close> (\<open>0x34\<close> bytes, the name in the
  first 12) per metadata hash, decoding the name; tags 10, 12, 16 and 19 read their header.
\<close>

definition ext_tag_block :: "byte list \<Rightarrow> nat \<Rightarrow> nat \<Rightarrow> nat \<Rightarrow> fault + unit" where
  "ext_tag_block reading tag cpd_ext_offset cpd_ext_size =
     (if tag = 3
      then (case struct_only reading cpd_ext_offset 0x58 of
              Inl e \<Rightarrow> Inl e
            | Inr u \<Rightarrow> mods_scan reading [(0, 12)] 0x34 (cpd_ext_offset + cpd_ext_size)
                        (cpd_ext_offset + 0x58))
      else if tag = 10 then struct_only reading cpd_ext_offset 0x38
      else if tag = 12 then struct_only reading cpd_ext_offset 0x30
      else if tag = 15
      then (case struct_only reading cpd_ext_offset 0x34 of
              Inl e \<Rightarrow> Inl e
            | Inr u \<Rightarrow> mods_scan reading [(0, 12)] 0x34 (cpd_ext_offset + cpd_ext_size)
                        (cpd_ext_offset + 0x34))
      else if tag = 16 then struct_only reading cpd_ext_offset 0x60
      else if tag = 19 then struct_only reading cpd_ext_offset 0xB4
      else Inr ())"

datatype ext_error = Forced_Break_After_100 | Unimplemented_Extension nat

datatype ext_end = End_Reached | Forced_Break

record ext_state =
  cpd_ext_offset :: nat
  ext_tag :: nat
  loop_break :: nat
  err_stor :: "ext_error list"

text \<open>
  One pass below the guard, lines 1980 to 2078: the tag (read again behind the message
  for an unimplemented extension), the errors, and the declared size of the extension.
\<close>

definition ext_pass ::
  "bool \<Rightarrow> byte list \<Rightarrow> ext_state \<Rightarrow> fault + nat \<times> ext_error list \<times> nat" where
  "ext_pass me11_mod_extr reading st =
     (let off = cpd_ext_offset st;
          unknown = ext_tag st \<notin> set ext_tag_all;
          errs = (if unknown then err_stor st @ [Unimplemented_Extension (ext_tag st)]
                  else err_stor st);
          tag = (if unknown then from_bytes_little (slice reading off (off + 0x4)) else ext_tag st);
          cpd_ext_size = from_bytes_little (slice reading (off + 0x4) (off + 0x8))
      in (case (if me11_mod_extr then ext_print_block reading tag off cpd_ext_size else Inr ()) of
            Inl e \<Rightarrow> Inl e
          | Inr u \<Rightarrow>
              (case ext_tag_block reading tag off cpd_ext_size of
                 Inl e \<Rightarrow> Inl e
               | Inr u \<Rightarrow> Inr (tag, errs, cpd_ext_size))))"

text \<open>
  The \<open>while True\<close> loop. \<open>entry_end\<close> is \<open>cpd_entry_offset + cpd_entry_hdr.Size\<close>.
  The result says how the loop was left and gives the state at that point.
\<close>

function ext_loop ::
  "bool \<Rightarrow> byte list \<Rightarrow> nat \<Rightarrow> ext_state \<Rightarrow> fault + ext_end \<times> ext_state" where
  "ext_loop me11_mod_extr reading entry_end st =
     (if loop_break st + 1 > 100
      then Inr (Forced_Break,
                st \<lparr> loop_break := loop_break st + 1,
                     err_stor := err_stor st @ [Forced_Break_After_100] \<rparr>)
      else
       (case ext_pass me11_mod_extr reading st of
          Inl e \<Rightarrow> Inl e
        | Inr (tag, errs, cpd_ext_size) \<Rightarrow>
            (let off = cpd_ext_offset st + cpd_ext_size
             in if off + 1 > entry_end
                then Inr (End_Reached,
                          st \<lparr> cpd_ext_offset := off, ext_tag := tag,
                               loop_break := loop_break st + 1, err_stor := errs \<rparr>)
                else ext_loop me11_mod_extr reading entry_end
                       \<lparr> cpd_ext_offset = off,
                         ext_tag = from_bytes_little (slice reading off (off + 0x4)),
                         loop_break = loop_break st + 1, err_stor = errs \<rparr>)))"
  by pat_completeness auto

termination
  by (relation "measure (\<lambda>(me11_mod_extr, reading, entry_end, st). 101 - loop_break st)") auto

declare ext_loop.simps [simp del]

text \<open>
  Lines 1966 to 1970: the loop starts at \<open>cpd_ext_offset\<close> with the tag read there and
  the counter at 0.
\<close>

definition ext_scan :: "bool \<Rightarrow> byte list \<Rightarrow> nat \<Rightarrow> nat \<Rightarrow> fault + ext_end \<times> ext_state" where
  "ext_scan me11_mod_extr reading off entry_end =
     ext_loop me11_mod_extr reading entry_end
       \<lparr> cpd_ext_offset = off, ext_tag = from_bytes_little (slice reading off (off + 0x4)),
         loop_break = 0, err_stor = [] \<rparr>"

text \<open>
  Two metadata entries at offset 0 of a file. \<open>met_erased_name\<close> is an Extension 0x03
  that declares \<open>0x8C\<close> bytes, its header and one module record, where the record lies
  in erased flash (\<open>0xFF\<close>). \<open>met_zero_length\<close> is an Extension 0x0A that declares a
  length of 0.
\<close>

definition met_erased_name :: "byte list" where
  "met_erased_name =
     [3, 0, 0, 0, 0x8C, 0, 0, 0, 0x46, 0x54, 0x50, 0x52] @ replicate 0x4C 0 @ replicate 0x34 0xFF"

definition met_zero_length :: "byte list" where
  "met_zero_length = [0x0A, 0, 0, 0, 0, 0, 0, 0] @ replicate 0x30 0"

section \<open>Properties of the attribute word decoding\<close>

lemma length_bitstr [simp]: "length (bitstr k n) = k"
  by (induction k arbitrary: n) auto

lemma length_bin_digits: "n < 2 ^ k \<Longrightarrow> 0 < k \<Longrightarrow> length (bin_digits n) \<le> k"
proof (induction k arbitrary: n)
  case 0 then show ?case by simp
next
  case (Suc k)
  show ?case
  proof (cases "n < 2")
    case True then show ?thesis by (subst bin_digits.simps) simp
  next
    case False
    then have k: "0 < k" using Suc.prems by (cases k) auto
    have "n div 2 < 2 ^ k" using Suc.prems by auto
    from Suc.IH [OF this k] False show ?thesis by (subst bin_digits.simps) simp
  qed
qed

lemma bitstr_zero: "bitstr k 0 = replicate k CHR ''0''"
  by (induction k) (auto simp: bin_char_def replicate_append_same)

lemma pad_bin_digits:
  "n < 2 ^ k \<Longrightarrow> 0 < k \<Longrightarrow> replicate (k - length (bin_digits n)) CHR ''0'' @ bin_digits n = bitstr k n"
proof (induction k arbitrary: n)
  case 0 then show ?case by simp
next
  case (Suc k)
  show ?case
  proof (cases "n < 2")
    case True
    then have "n div 2 = 0" "n mod 2 = n" by auto
    then show ?thesis by (subst (1 2) bin_digits.simps) (simp add: True bitstr_zero)
  next
    case False
    then have k: "0 < k" using Suc.prems by (cases k) auto
    have lt: "n div 2 < 2 ^ k" using Suc.prems by auto
    have len: "length (bin_digits (n div 2)) \<le> k" by (rule length_bin_digits [OF lt k])
    have "bin_digits n = bin_digits (n div 2) @ [bin_char (n mod 2)]"
      using False by (subst bin_digits.simps) simp
    moreover have "Suc k - (length (bin_digits (n div 2)) + 1) = k - length (bin_digits (n div 2))"
      by simp
    ultimately show ?thesis using Suc.IH [OF lt k] by simp
  qed
qed

lemma format_032b_bitstr: "n < 2 ^ 32 \<Longrightarrow> format_032b n = bitstr 32 n"
  using pad_bin_digits [of n 32] by (simp add: format_032b_def Let_def)

lemma bitstr_split: "bitstr (j + m) n = bitstr j (n div 2 ^ m) @ bitstr m n"
proof (induction m arbitrary: n)
  case 0 then show ?case by simp
next
  case (Suc m)
  have "(n div 2) div 2 ^ m = n div 2 ^ Suc m"
    by (simp add: div_mult2_eq)
  then show ?case using Suc [of "n div 2"] by simp
qed

lemma int_base2_acc_bitstr: "int_base2_acc a (bitstr k n) = Some (a * 2 ^ k + n mod 2 ^ k)"
proof (induction k arbitrary: n a)
  case 0 then show ?case by simp
next
  case (Suc k)
  have app: "\<And>a xs d. int_base2_acc a (xs @ [bin_char d]) =
      (case int_base2_acc a xs of None \<Rightarrow> None | Some b \<Rightarrow> Some (2 * b + (if d = 0 then 0 else 1)))"
    subgoal for a xs d by (induction xs arbitrary: a) (auto simp: bin_char_def)
    done
  have "n mod 2 ^ Suc k = 2 * (n div 2 mod 2 ^ k) + n mod 2"
    by (simp add: mod_mult2_eq)
  then show ?case by (simp add: app Suc algebra_simps)
qed

lemma int_base2_bitstr: "0 < k \<Longrightarrow> int_base2 (bitstr k n) = Some (n mod 2 ^ k)"
  using int_base2_acc_bitstr [of 0 k n] by (cases k) (auto simp: int_base2_def)



lemma bitstr_one: "bitstr (Suc 0) m = [bin_char (m mod 2)]"
  by simp

lemma div_div_25: "(n::nat) div 2 ^ 25 div 2 = n div 2 ^ 26"
  by (simp add: div_mult2_eq [symmetric])

lemma bitstr_7: "bitstr 7 m = bitstr 6 (m div 2) @ [bin_char (m mod 2)]"
  using bitstr_split [of 6 "Suc 0" m] by simp

lemma bitstr_32: "bitstr 32 n = bitstr 7 (n div 2 ^ 25) @ bitstr 25 n"
  using bitstr_split [of 7 25 n] by simp

lemma cpd_attr_decode_eq:
  "cpd_attr_decode w = Some (unat w mod 2 ^ 25, unat w div 2 ^ 25 mod 2, unat w div 2 ^ 26)"
proof -
  define n where "n = unat w"
  have n: "n < 2 ^ 32" unfolding n_def using unsigned_less [of w, where 'a = nat] by simp
  have f: "format_032b n = bitstr 32 n" by (rule format_032b_bitstr [OF n])
  have s: "bitstr 32 n = bitstr 6 (n div 2 ^ 26) @ [bin_char (n div 2 ^ 25 mod 2)] @ bitstr 25 n"
    by (simp only: bitstr_32 bitstr_7 div_div_25 append_assoc)
  have l: "length (bitstr 32 n) = 32" by simp
  have d: "drop 7 (bitstr 32 n) = bitstr 25 n" by (simp only: bitstr_32) simp
  have t: "take 6 (bitstr 32 n) = bitstr 6 (n div 2 ^ 26)" by (simp only: s) simp
  have i: "bitstr 32 n ! 6 = bin_char (n div 2 ^ 25 mod 2)"
    by (simp only: s) (simp add: nth_append)
  have r: "n div 2 ^ 26 < 2 ^ 6" using n by (simp add: less_mult_imp_div_less)
  have h: "int_base2 [bin_char (n div 2 ^ 25 mod 2)] = Some (n div 2 ^ 25 mod 2)"
    by (auto simp: int_base2_def bin_char_def)
  have o: "int_base2 (bitstr 25 n) = Some (n mod 2 ^ 25)" by (rule int_base2_bitstr) simp
  have u: "int_base2 (bitstr 6 (n div 2 ^ 26)) = Some (n div 2 ^ 26)"
    using int_base2_bitstr [of 6 "n div 2 ^ 26"] r by simp
  show ?thesis
    unfolding cpd_attr_decode_def n_def [symmetric] f Let_def d t i l o u h by simp
qed


lemma unat_take_bit_25: "unat (take_bit 25 (w :: 32 word)) = unat w mod 2 ^ 25"
  by (simp only: unsigned_take_bit_eq take_bit_nat_def)

lemma unat_drop_bit_26: "unat (drop_bit 26 (w :: 32 word)) = unat w div 2 ^ 26"
  using unat_drop_bit_eq [of 26 w] by (simp only: drop_bit_eq_div)

lemma bit_25_unat: "bit w 25 \<longleftrightarrow> unat (w :: 32 word) div 2 ^ 25 mod 2 = 1"
proof -
  have "bit w 25 \<longleftrightarrow> bit (unat w) 25" by (simp add: bit_unsigned_iff)
  also have "\<dots> \<longleftrightarrow> odd (unat w div 2 ^ 25)" by (simp only: bit_iff_odd)
  also have "\<dots> \<longleftrightarrow> unat w div 2 ^ 25 mod 2 = 1" by (simp only: odd_iff_mod_2_eq_one)
  finally show ?thesis .
qed

text \<open>
  C1. For every 32-bit attribute word the decoding succeeds; the offset is bits 0 to 24 of
  the word (the word modulo \<open>2 ^ 25\<close>), the Huffman flag is bit 25, whatever the upper
  bits are; the six reserved bits are only extracted, nothing rejects the word for them.
\<close>

theorem cpd_attr_decode_low25:
  "cpd_attr_decode w =
     Some (unat (take_bit 25 w), (if bit w 25 then 1 else 0), unat (drop_bit 26 w))
   \<and> unat (take_bit 25 w) = unat w mod 2 ^ 25
   \<and> take_bit 25 (w OR push_bit 25 u) = take_bit 25 w"
proof -
  have a: "unat (take_bit 25 w) = unat w mod 2 ^ 25"
    by (rule unat_take_bit_25)
  have b: "unat (drop_bit 26 w) = unat w div 2 ^ 26"
    by (rule unat_drop_bit_26)
  have c: "unat w div 2 ^ 25 mod 2 = (if bit w 25 then 1 else 0)"
    using bit_25_unat [of w] by auto
  have d: "take_bit 25 (w OR push_bit 25 u) = take_bit 25 w"
    by (rule bit_word_eqI) (auto simp: bit_simps)
  show ?thesis
    using a b c d by (simp only: cpd_attr_decode_eq)
qed

text \<open>
  C9, as the code has it. The word \<open>0x01000005\<close> has bit 24 set, and bit 24 belongs to the
  25-bit offset field: its offset is \<open>0x1000005 = 16777221\<close>, not 5.
\<close>

theorem cpd_attr_decode_01000005_not_5:
  "map_option fst (cpd_attr_decode 0x01000005) \<noteq> Some 5"
  by (simp add: cpd_attr_decode_eq)

text \<open>
  C9, amended: \<open>0x01000005\<close> decodes to offset \<open>0x1000005\<close> with Huffman flag 0, and
  \<open>0x02000005\<close> (bit 25 set) decodes to offset 5 with Huffman flag 1.
\<close>

theorem cpd_attr_decode_scenario:
  "cpd_attr_decode 0x01000005 = Some (0x1000005, 0, 0)
   \<and> cpd_attr_decode 0x02000005 = Some (5, 1, 0)"
  by (simp add: cpd_attr_decode_eq)

section \<open>Properties of the \$CPD checksum\<close>

lemma sum_list_without_nth:
  "i < length xs \<Longrightarrow>
   sum_list (map f xs) - f (xs ! i) = (sum_list (map f (take i xs @ drop (Suc i) xs)) :: int)"
proof -
  assume "i < length xs"
  then have "xs = take i xs @ xs ! i # drop (Suc i) xs" by (rule id_take_nth_drop)
  then have "sum_list (map f xs) = sum_list (map f (take i xs @ xs ! i # drop (Suc i) xs))"
    by simp
  then show ?thesis by simp
qed

text \<open>
  C3. On a buffer that holds a \$CPD directory (at least the 16-byte header), \<open>cpd_chk\<close>
  accepts exactly when \<open>(0x100 - sum) & 0xFF\<close>, with the sum taken over every byte but
  the one at offset \<open>0xB\<close>, equals the byte at offset \<open>0xB\<close>.
\<close>

theorem cpd_chk_iff:
  assumes "0x10 \<le> length cpd_data"
  shows "cpd_chk cpd_data =
     Some ((0x100 - sum_list (map uint (take 0xB cpd_data @ drop 0xC cpd_data))) AND 0xFF
           = uint (cpd_data ! 0xB))"
proof -
  have l: "11 < length cpd_data" using assms by simp
  have "sum_list (map uint cpd_data) - uint (cpd_data ! 11)
      = sum_list (map uint (take 11 cpd_data @ drop (Suc 11) cpd_data))"
    by (rule sum_list_without_nth [OF l])
  moreover have "Suc 11 = 12" by simp
  ultimately have s: "sum_list (map uint cpd_data) - uint (cpd_data ! 11)
      = sum_list (map uint (take 11 cpd_data @ drop 12 cpd_data))" by (simp only:)
  have idem: "\<And>x::int. (x AND 0xFF) AND 0xFF = x AND 0xFF" by (simp add: and.assoc)
  show ?thesis using l unfolding cpd_chk_def Let_def s idem by (auto simp: eq_commute)
qed

theorem cpd_chk_iff_witness:
  "0x10 \<le> length cpd_sample \<and> cpd_chk cpd_sample = Some True
    \<and> cpd_chk (cpd_sample[0xB := 0xB8]) = Some False"
  using cpd_chk_iff [of cpd_sample] cpd_chk_iff [of "cpd_sample[0xB := 0xB8]"]
  by (simp add: cpd_sample_def)

section \<open>Removal of missing IBBP modules\<close>

lemma ibbp_missing_single:
  "ibbp_missing ibbp_all cpd_mod_attr = [i] \<Longrightarrow> i < length cpd_mod_attr \<Longrightarrow> ibbp_all \<noteq> [] \<Longrightarrow>
   ibbp_remove ibbp_all cpd_mod_attr = Some (take i cpd_mod_attr @ drop (Suc i) cpd_mod_attr)"
  by (simp add: ibbp_remove_def)

text \<open>
  C8, at two inputs with more than one module of the trio absent. With IBBL and IBB
  declared but absent and OBB present, the collected indices are 0 and 1; after the row at
  0 is deleted the row of IBB has moved to index 0 and the row of OBB to index 1, so the
  second deletion removes the present OBB and the absent IBB stays. With all three absent
  beside one other module, the third deletion is out of range and raises.
\<close>

theorem ibbp_remove_two_absent:
  "ibbp_remove [''OBB'']
     [bpm_row ''IBBL'' ''11'', bpm_row ''IBB'' ''22'', bpm_row_present ''OBB'' ''33'' 0x1000 0x2000]
     = Some [bpm_row ''IBB'' ''22'']
   \<and> ibbp_remove [''FOO'']
     [bpm_row ''IBBL'' ''11'', bpm_row ''IBB'' ''22'', bpm_row ''OBB'' ''33'',
      data_row ''FOO'' 0x1000 0x2000]
     = None"
  by (simp add: ibbp_remove_def ibbp_missing_def ibbp_bpm_def bpm_row_def bpm_row_present_def
      data_row_def upt_conv_Cons)

section \<open>The hash verdict of an LZMA module\<close>

text \<open>
  A row that the module listing cannot print ends \<open>mod_anl\<close> before any module is
  handled; this is so for a Compression byte above 2 and for an Encryption byte above 1.
\<close>

lemma mod_anl_listing_fault:
  "- 1 < cpd_offset \<Longrightarrow> m \<in> set cpd_all_attr \<Longrightarrow> \<not> mod_details_ok m \<Longrightarrow>
   mod_anl sha_256 lzma_decompress other reading cpd_offset cpd_all_attr
     = ([], Some Uncaught_IndexError)"
  by (auto simp: mod_anl_def list_all_iff)

lemma mod_anl_encryption_2:
  "mod_anl sha_256 lzma_decompress other reading 0 [lzma_row 2 sz_comp sz_uncomp h]
     = ([], Some Uncaught_IndexError)"
  by (simp add: mod_anl_def mod_details_ok_def lzma_row_def)

text \<open>Every report of the loop is the report of the row at the same index.\<close>

lemma mod_loop_reports:
  "mod_loop sha_256 lzma_decompress other reading rows = (reports, ended) \<Longrightarrow>
   i < length reports \<Longrightarrow>
   i < length rows
   \<and> mod_anl_row sha_256 lzma_decompress other reading (rows ! i) = Inr (reports ! i)"
proof (induction rows arbitrary: reports ended i)
  case Nil
  then show ?case by simp
next
  case (Cons m ms)
  show ?case
  proof (cases "mod_anl_row sha_256 lzma_decompress other reading m")
    case (Inl e)
    with Cons.prems show ?thesis by simp
  next
    case (Inr r)
    obtain rs en where l: "mod_loop sha_256 lzma_decompress other reading ms = (rs, en)"
      by (cases "mod_loop sha_256 lzma_decompress other reading ms")
    with Cons.prems(1) Inr have r: "reports = r # rs" by auto
    show ?thesis
    proof (cases i)
      case 0
      with Inr r show ?thesis by simp
    next
      case (Suc j)
      with Cons.prems(2) r have "j < length rs" by simp
      from Cons.IH [OF l this] Suc r show ?thesis by simp
    qed
  qed
qed

lemma mod_anl_reports:
  assumes "mod_anl sha_256 lzma_decompress other reading cpd_offset cpd_all_attr = (reports, ended)"
    and "i < length reports"
  shows "i < length cpd_all_attr \<and> mod_details_ok (cpd_all_attr ! i)
   \<and> mod_anl_row sha_256 lzma_decompress other reading (cpd_all_attr ! i) = Inr (reports ! i)"
proof -
  from assms have ok: "list_all mod_details_ok cpd_all_attr"
    and l: "mod_loop sha_256 lzma_decompress other reading cpd_all_attr = (reports, ended)"
    by (auto simp: mod_anl_def split: if_splits)
  from mod_loop_reports [OF l assms(2)] have
    i: "i < length cpd_all_attr"
    and r: "mod_anl_row sha_256 lzma_decompress other reading (cpd_all_attr ! i) = Inr (reports ! i)"
    by simp_all
  from ok i have "mod_details_ok (cpd_all_attr ! i)" by (simp add: list_all_length)
  with i r show ?thesis by simp
qed

text \<open>
  When the listing prints every row and the other branches end without a fault, every row
  is reported and the run ends regularly.
\<close>

lemma mod_loop_all_reported:
  "\<forall>m \<in> set rows. other m = None \<Longrightarrow>
   \<exists>reports. mod_loop sha_256 lzma_decompress other reading rows = (reports, None)
     \<and> length reports = length rows"
  by (induction rows) (auto simp: mod_anl_row_def Let_def)

lemma mod_anl_all_reported:
  "- 1 < cpd_offset \<Longrightarrow> cpd_all_attr \<noteq> [] \<Longrightarrow> list_all mod_details_ok cpd_all_attr \<Longrightarrow>
   \<forall>m \<in> set cpd_all_attr. other m = None \<Longrightarrow>
   \<exists>reports. mod_anl sha_256 lzma_decompress other reading cpd_offset cpd_all_attr = (reports, None)
     \<and> length reports = length cpd_all_attr"
  using mod_loop_all_reported [of cpd_all_attr other sha_256 lzma_decompress reading]
  by (simp add: mod_anl_def)

text \<open>
  C10, amended. Take a non-empty, non-encrypted LZMA module for which \<open>mod_anl\<close> gives a
  report. If its stored bytes (after the three header zero bytes are stripped) decompress
  without error, the verdict is \<open>VALID\<close> exactly when the expected hash is the SHA-256 of
  the stored bytes, taken before the stripping, or the SHA-256 of the decompressed bytes
  padded with \<open>0xFF\<close> up to the declared uncompressed size, and \<open>INVALID\<close> otherwise. If
  the decoder raises, there is no verdict on the hash: the failure to decompress is all
  that is reported.
\<close>

theorem mod_anl_lzma_verdict:
  assumes "mod_anl sha_256 lzma_decompress other reading cpd_offset cpd_all_attr = (reports, ended)"
    and "i < length reports"
    and "mod_empty (cpd_all_attr ! i) \<noteq> 1"
    and "mod_comp (cpd_all_attr ! i) = 2"
    and "mod_encr (cpd_all_attr ! i) \<noteq> 1"
    and "mod_data = slice reading (mod_start (cpd_all_attr ! i))
           (mod_start (cpd_all_attr ! i) + mod_size_comp (cpd_all_attr ! i))"
  shows "reports ! i =
     (case lzma_decompress (lzma_strip mod_data) of
        None \<Rightarrow> Decompress_Failed
      | Some mod_data_u \<Rightarrow>
          if mod_hash (cpd_all_attr ! i) = PyStr (str_upper (sha_256 mod_data))
             \<or> mod_hash (cpd_all_attr ! i) = PyStr (str_upper (sha_256
                  (mod_data_u
                   @ replicate (mod_size_uncomp (cpd_all_attr ! i) - length mod_data_u) 0xFF)))
          then Hash_Valid else Hash_Invalid)"
proof -
  have pad: "lzma_pad n u = u @ replicate (n - length u) 0xFF" for n u
    by (simp add: lzma_pad_def Let_def)
  from mod_anl_reports [OF assms(1,2)] have
    "mod_anl_row sha_256 lzma_decompress other reading (cpd_all_attr ! i) = Inr (reports ! i)"
    by simp
  with assms(3-6) have r: "reports ! i =
      mod_anl_lzma sha_256 lzma_decompress (mod_size_uncomp (cpd_all_attr ! i))
        (mod_hash (cpd_all_attr ! i)) mod_data"
    by (simp add: mod_anl_row_def Let_def)
  show ?thesis
  proof (cases "lzma_decompress (lzma_strip mod_data)")
    case None
    then show ?thesis by (simp add: r mod_anl_lzma_def)
  next
    case (Some mod_data_u)
    then show ?thesis by (simp add: r mod_anl_lzma_def Let_def pad)
  qed
qed

text \<open>The samples, evaluated.\<close>

lemma str_upper_sample:
  "str_upper ''7b63c575568455c153a36b647e17eae869de247c740f16ea34023af530a407ee''
   = ''7B63C575568455C153A36B647E17EAE869DE247C740F16EA34023AF530A407EE''"
  by code_simp

lemma lzma_strip_sample: "lzma_strip lzma_stored = take 0xE lzma_stored @ drop 0x11 lzma_stored"
  by (simp add: lzma_strip_def lzma_stored_def slice_def)

lemma lzma_stored_run:
  "mod_anl sha_256_samples lzma_decompress_samples no_fault lzma_stored 0
     [lzma_row 0 29 8 ''7B63C575568455C153A36B647E17EAE869DE247C740F16EA34023AF530A407EE'']
   = ([mod_anl_lzma sha_256_samples lzma_decompress_samples 8
        (PyStr ''7B63C575568455C153A36B647E17EAE869DE247C740F16EA34023AF530A407EE'')
        lzma_stored], None)"
  by (simp add: mod_anl_def mod_details_ok_def lzma_row_def mod_anl_row_def slice_def
      lzma_stored_def)

theorem mod_anl_lzma_verdict_witness:
  "fst (mod_anl sha_256_samples lzma_decompress_samples no_fault lzma_stored 0
     [lzma_row 0 29 8 ''7B63C575568455C153A36B647E17EAE869DE247C740F16EA34023AF530A407EE''])
     ! 0
   = Hash_Valid"
proof -
  let ?h = "''7B63C575568455C153A36B647E17EAE869DE247C740F16EA34023AF530A407EE''"
  let ?rows = "[lzma_row 0 29 8 ?h]"
  let ?r = "mod_anl_lzma sha_256_samples lzma_decompress_samples 8 (PyStr ?h) lzma_stored"
  have s: "slice lzma_stored (mod_start (?rows ! 0))
      (mod_start (?rows ! 0) + mod_size_comp (?rows ! 0)) = lzma_stored"
    by (simp add: lzma_row_def slice_def lzma_stored_def)
  have d: "lzma_decompress_samples (lzma_strip lzma_stored) = Some [0x4D, 0x45, 0x41]"
    by (simp add: lzma_strip_sample lzma_decompress_samples_def)
  have h: "sha_256_samples ([0x4D, 0x45, 0x41] @ replicate (8 - length [0x4D, 0x45, 0x41 :: byte]) 0xFF)
      = ''7b63c575568455c153a36b647e17eae869de247c740f16ea34023af530a407ee''"
    by (simp add: sha_256_samples_def lzma_stored_def numeral_eq_Suc)
  have e: "(0 :: nat) < length [?r]" "mod_empty (?rows ! 0) \<noteq> 1" "mod_comp (?rows ! 0) = 2"
    "mod_encr (?rows ! 0) \<noteq> 1"
    by (simp_all add: lzma_row_def)
  have u: "mod_size_uncomp (?rows ! 0) = 8" "mod_hash (?rows ! 0) = PyStr ?h"
    by (simp_all add: lzma_row_def)
  from mod_anl_lzma_verdict [OF lzma_stored_run e s [symmetric]]
  have "[?r] ! 0 = Hash_Valid"
    unfolding d u by (simp only: option.case h str_upper_sample) simp
  then show ?thesis by (simp only: lzma_stored_run fst_conv)
qed

text \<open>
  C10, as stated, at a module whose stored bytes the decoder rejects: the expected hash is
  the SHA-256 of the stored bytes, and no verdict is printed, only the failure to
  decompress.
\<close>

theorem mod_anl_lzma_corrupt_stream:
  "mod_anl sha_256_samples lzma_decompress_samples no_fault lzma_corrupt 0
     [lzma_row 0 25 8 (str_upper (sha_256_samples lzma_corrupt))] = ([Decompress_Failed], None)"
  by (simp add: mod_anl_def mod_details_ok_def mod_anl_row_def mod_anl_lzma_def lzma_row_def
      slice_def lzma_corrupt_def lzma_strip_def lzma_decompress_samples_def lzma_stored_def
      Let_def)

section \<open>The RSA signature check\<close>

lemma hex_val_hex_char: "d < 16 \<Longrightarrow> hex_val (hex_char d) = Some d"
proof -
  assume "d < 16"
  then have "d = 0 \<or> d = 1 \<or> d = 2 \<or> d = 3 \<or> d = 4 \<or> d = 5 \<or> d = 6 \<or> d = 7 \<or> d = 8
      \<or> d = 9 \<or> d = 10 \<or> d = 11 \<or> d = 12 \<or> d = 13 \<or> d = 14 \<or> d = 15"
    by arith
  then show ?thesis by (elim disjE) (simp_all add: hex_char_def hex_val_def)
qed

lemma length_hexstr [simp]: "length (hexstr k n) = k"
  by (induction k arbitrary: n) auto

lemma int_base16_acc_append:
  "int_base16_acc a (xs @ ys) =
     (case int_base16_acc a xs of None \<Rightarrow> None | Some b \<Rightarrow> int_base16_acc b ys)"
  by (induction xs arbitrary: a) (auto split: option.splits)

lemma int_base16_acc_hexstr: "int_base16_acc a (hexstr k n) = Some (a * 16 ^ k + n mod 16 ^ k)"
proof (induction k arbitrary: n a)
  case 0 then show ?case by simp
next
  case (Suc k)
  have "n mod 16 ^ Suc k = 16 * (n div 16 mod 16 ^ k) + n mod 16"
    by (simp add: mod_mult2_eq)
  then show ?case
    by (simp add: int_base16_acc_append Suc hex_val_hex_char algebra_simps)
qed

lemma hex_char_0: "hex_char 0 = CHR ''0''"
  by (simp add: hex_char_def)

lemma hexstr_zero: "hexstr k 0 = replicate k CHR ''0''"
  by (induction k) (auto simp: hex_char_0 replicate_append_same)

lemma length_hex_digits: "n < 16 ^ k \<Longrightarrow> 0 < k \<Longrightarrow> length (hex_digits n) \<le> k"
proof (induction k arbitrary: n)
  case 0 then show ?case by simp
next
  case (Suc k)
  show ?case
  proof (cases "n < 16")
    case True then show ?thesis by (subst hex_digits.simps) simp
  next
    case False
    then have k: "0 < k" using Suc.prems by (cases k) auto
    have "n div 16 < 16 ^ k" using Suc.prems by (simp add: less_mult_imp_div_less mult.commute)
    from Suc.IH [OF this k] False show ?thesis by (subst hex_digits.simps) simp
  qed
qed

lemma pad_hex_digits:
  "n < 16 ^ k \<Longrightarrow> 0 < k \<Longrightarrow>
   replicate (k - length (hex_digits n)) CHR ''0'' @ hex_digits n = hexstr k n"
proof (induction k arbitrary: n)
  case 0 then show ?case by simp
next
  case (Suc k)
  show ?case
  proof (cases "n < 16")
    case True
    then have "n div 16 = 0" "n mod 16 = n" by auto
    then show ?thesis by (subst (1 2) hex_digits.simps) (simp add: True hexstr_zero)
  next
    case False
    then have k: "0 < k" using Suc.prems by (cases k) auto
    have lt: "n div 16 < 16 ^ k" using Suc.prems by (simp add: less_mult_imp_div_less mult.commute)
    have len: "length (hex_digits (n div 16)) \<le> k" by (rule length_hex_digits [OF lt k])
    have "hex_digits n = hex_digits (n div 16) @ [hex_char (n mod 16)]"
      using False by (subst hex_digits.simps) simp
    moreover have "Suc k - (length (hex_digits (n div 16)) + 1) = k - length (hex_digits (n div 16))"
      by simp
    ultimately show ?thesis using Suc.IH [OF lt k] by simp
  qed
qed

lemma format_0X_8: "n < 2 ^ 32 \<Longrightarrow> format_0X 8 n = hexstr 8 n"
  using pad_hex_digits [of n 8] by (simp add: format_0X_def Let_def)

lemma mod_2_32_bytes:
  "(v::nat) mod 4294967296 =
     v mod 256 + 256 * (v div 256 mod 256 + 256 * (v div 65536 mod 256 + 256 * (v div 16777216 mod 256)))"
proof -
  have a: "v mod (256 * 16777216) = 256 * (v div 256 mod 16777216) + v mod 256"
    by (rule mod_mult2_eq)
  have b: "(v div 256) mod (256 * 65536) = 256 * (v div 256 div 256 mod 65536) + v div 256 mod 256"
    by (rule mod_mult2_eq)
  have c: "(v div 256 div 256) mod (256 * 256)
      = 256 * (v div 256 div 256 div 256 mod 256) + v div 256 div 256 mod 256"
    by (rule mod_mult2_eq)
  have d2: "v div 256 div 256 = v div 65536" by (simp add: div_mult2_eq [symmetric])
  have d3: "v div 65536 div 256 = v div 16777216" by (simp add: div_mult2_eq [symmetric])
  show ?thesis using a b c by (simp add: d2 d3)
qed

lemma from_bytes_little_pack: "from_bytes_little (struct_pack_I v) = v mod 2 ^ 32"
proof -
  have u: "\<And>x. unat (of_nat (x mod 256) :: byte) = x mod 256"
    by (simp add: unat_of_nat)
  show ?thesis using mod_2_32_bytes [of v] by (simp add: struct_pack_I_def u)
qed

lemma words_hex_reversed_Cons:
  "words_hex_reversed (v # vs) = words_hex_reversed vs @ format_0X 8 (from_bytes_little (struct_pack_I v))"
  by (simp add: words_hex_reversed_def)

lemma int_base16_acc_words:
  "\<forall>v \<in> set vals. v < 2 ^ 32 \<Longrightarrow>
   int_base16_acc a (words_hex_reversed vals) = Some (a * 2 ^ (32 * length vals) + le_words vals)"
proof (induction vals)
  case Nil then show ?case by (simp add: words_hex_reversed_def)
next
  case (Cons v vs)
  have v: "v < 2 ^ 32" using Cons.prems by simp
  have f: "format_0X 8 (from_bytes_little (struct_pack_I v)) = hexstr 8 v"
    using v by (simp add: from_bytes_little_pack format_0X_8)
  have p: "(2::nat) ^ (32 * length (v # vs)) = 2 ^ 32 * 2 ^ (32 * length vs)"
    by (simp add: power_add)
  have m: "v mod 16 ^ 8 = v" using v by simp
  show ?case
    unfolding words_hex_reversed_Cons int_base16_acc_append f p
    using Cons by (simp add: int_base16_acc_hexstr m algebra_simps)
qed

lemma from_bytes_little_bound: "from_bytes_little bs < 256 ^ length bs"
proof (induction bs)
  case Nil then show ?case by simp
next
  case (Cons b bs)
  have "unat b < 256" using unsigned_less [of b, where 'a = nat] by simp
  moreover have "from_bytes_little bs + 1 \<le> 256 ^ length bs" using Cons by simp
  then have "256 * (from_bytes_little bs + 1) \<le> 256 * 256 ^ length bs" by (rule mult_le_mono2)
  ultimately show ?case by simp
qed

lemma field_u32_bound: "field_u32 s k < 2 ^ 32"
proof -
  have "length (slice s k (k + 4)) \<le> 4" by (simp add: slice_def)
  then have "(256::nat) ^ length (slice s k (k + 4)) \<le> 256 ^ 4"
    by (intro power_increasing) simp_all
  then show ?thesis
    using from_bytes_little_bound [of "slice s k (k + 4)"] by (simp add: field_u32_def)
qed


lemma hex_digits_nonempty: "hex_digits n \<noteq> []"
  by (subst hex_digits.simps) simp

lemma words_hex_reversed_nonempty: "vals \<noteq> [] \<Longrightarrow> words_hex_reversed vals \<noteq> []"
  by (cases vals) (simp_all add: words_hex_reversed_Cons format_0X_def Let_def hex_digits_nonempty)

lemma man_key_int_eq:
  "man_key_int s off = Some (le_words (field_u32_array s off 64))"
proof -
  have b: "\<forall>v \<in> set (field_u32_array s off 64). v < 2 ^ 32"
    using field_u32_bound [of s] by (auto simp: field_u32_array_def)
  have "field_u32_array s off 64 \<noteq> []" by (simp add: field_u32_array_def)
  then have l: "words_hex_reversed (field_u32_array s off 64) \<noteq> []"
    by (rule words_hex_reversed_nonempty)
  show ?thesis
    using int_base16_acc_words [OF b, of 0] l by (simp add: man_key_int_def int_base16_def)
qed

lemma from_bytes_little_append:
  "from_bytes_little (xs @ ys) = from_bytes_little xs + 256 ^ length xs * from_bytes_little ys"
  by (induction xs) (simp_all add: algebra_simps)

lemma slice_split: "i \<le> j \<Longrightarrow> j \<le> k \<Longrightarrow> slice s i k = slice s i j @ slice s j k"
proof -
  assume a: "i \<le> j" "j \<le> k"
  then have "k - i = (j - i) + (k - j)" by simp
  then have "take (k - i) (drop i s) = take (j - i) (drop i s) @ take (k - j) (drop (j - i) (drop i s))"
    by (simp only: take_add)
  then show ?thesis using a by (simp add: slice_def)
qed

lemma length_slice: "j \<le> length s \<Longrightarrow> length (slice s i j) = j - i"
  by (simp add: slice_def)

lemma field_u32_array_Suc:
  "field_u32_array s k (Suc n) = field_u32 s k # field_u32_array s (k + 4) n"
  by (simp add: field_u32_array_def map_upt_Suc del: upt_Suc) (simp add: algebra_simps)

lemma le_words_field_u32_array:
  "k + 4 * n \<le> length s \<Longrightarrow>
   le_words (field_u32_array s k n) = from_bytes_little (slice s k (k + 4 * n))"
proof (induction n arbitrary: k)
  case 0 then show ?case by (simp add: field_u32_array_def slice_def)
next
  case (Suc n)
  have sp: "slice s k (k + 4 * Suc n) = slice s k (k + 4) @ slice s (k + 4) (k + 4 + 4 * n)"
    using slice_split [of k "k + 4" "k + 4 * Suc n" s] by (simp add: algebra_simps)
  have len: "length (slice s k (k + 4)) = 4"
    using Suc.prems by (simp add: length_slice)
  have ih: "le_words (field_u32_array s (k + 4) n) = from_bytes_little (slice s (k + 4) (k + 4 + 4 * n))"
    using Suc.prems by (intro Suc.IH) simp
  show ?case
    unfolding field_u32_array_Suc sp from_bytes_little_append len
    by (simp add: ih field_u32_def)
qed

lemma man_key_int_bytes:
  "off + 256 \<le> length s \<Longrightarrow> man_key_int s off = Some (from_bytes_little (slice s off (off + 256)))"
  using le_words_field_u32_array [of off 64 s] by (simp add: man_key_int_eq)

lemma length_rsa_sample: "length rsa_sample = 0x284"
  by (simp add: rsa_sample_def)

lemma rsa_sample_pkey: "man_key_int rsa_sample 0x80 = Some (2 ^ 2047)"
  by (simp add: man_key_int_bytes length_rsa_sample) (simp add: rsa_sample_def slice_def)


lemma rsa_sig_val_returns:
  "rsa_sig_val sha1 sha256 variant major reading man_hdr_struct check_start \<noteq> None"
  by (simp add: rsa_sig_val_def Let_def man_key_int_eq)

lemma rsa_sample_sign: "man_key_int rsa_sample 0x184 = Some 0x0B12E130E4059E923B7C911F42AB0E917D154895D2D14516331986F664D8CDA1"
  by (simp add: man_key_int_bytes length_rsa_sample) (simp add: rsa_sample_def slice_def)

lemma rsa_sample_fields: "field_u32 rsa_sample 0x04 = 0xA1" "field_u32 rsa_sample 0x18 = 0xA1"
  "field_u32 rsa_sample 0x180 = 1"
  by (simp_all add: field_u32_def slice_def rsa_sample_def)

lemma rsa_sample_data: "rsa_data rsa_sample 0 (0xA1 * 4) (0xA1 * 4) = take 0x80 rsa_sample"
  by (simp add: rsa_data_def slice_def)

lemma rsa_sample_hex: "hex_digits 0x0B12E130E4059E923B7C911F42AB0E917D154895D2D14516331986F664D8CDA1 = ''B12E130E4059E923B7C911F42AB0E917D154895D2D14516331986F664D8CDA1''"
  by (simp add: hex_digits.simps hex_char_def)

lemma rsa_sample_upper: "str_upper ''0b12e130e4059e923b7c911f42ab0e917d154895d2d14516331986f664d8cda1'' = ''0B12E130E4059E923B7C911F42AB0E917D154895D2D14516331986F664D8CDA1''"
  by code_simp

lemma rsa_sample_digest_value: "int_base16 ''0B12E130E4059E923B7C911F42AB0E917D154895D2D14516331986F664D8CDA1'' = Some (0x0B12E130E4059E923B7C911F42AB0E917D154895D2D14516331986F664D8CDA1 mod 2 ^ 256)"
  by (simp add: int_base16_def hex_val_def)

text \<open>
  C2, at a manifest whose decrypted signature is short. Variant ME, major version 11:
  SHA-256. The signature to the power 1 modulo \<open>2 ^ 2047\<close> is the digest itself, so the
  low 256 bits of the decrypted value equal the digest; its rendering by \<open>'%X'\<close> has 63
  digits, since the digest starts with the digit 0, the upper-case digest has 64, and the
  comparison of the two strings fails.
\<close>

theorem rsa_sig_val_short_decrypted:
  "rsa_sig_val sha256_at_sample sha256_at_sample ''ME'' 11 rsa_sample rsa_sample 0
     = Some (False, PyStr ''B12E130E4059E923B7C911F42AB0E917D154895D2D14516331986F664D8CDA1'', PyStr ''0B12E130E4059E923B7C911F42AB0E917D154895D2D14516331986F664D8CDA1'', False)
   \<and> py_pow3 0x0B12E130E4059E923B7C911F42AB0E917D154895D2D14516331986F664D8CDA1 1 (2 ^ 2047) = Some 0x0B12E130E4059E923B7C911F42AB0E917D154895D2D14516331986F664D8CDA1
   \<and> int_base16 ''0B12E130E4059E923B7C911F42AB0E917D154895D2D14516331986F664D8CDA1'' = Some (0x0B12E130E4059E923B7C911F42AB0E917D154895D2D14516331986F664D8CDA1 mod 2 ^ 256)"
proof -
  have p: "py_pow3 0x0B12E130E4059E923B7C911F42AB0E917D154895D2D14516331986F664D8CDA1 1 (2 ^ 2047) = Some 0x0B12E130E4059E923B7C911F42AB0E917D154895D2D14516331986F664D8CDA1"
    by (simp add: py_pow3_def)
  have c: "rsa_checked sha256_at_sample 64 0x0B12E130E4059E923B7C911F42AB0E917D154895D2D14516331986F664D8CDA1 (take 0x80 rsa_sample)
      = (False, PyStr ''B12E130E4059E923B7C911F42AB0E917D154895D2D14516331986F664D8CDA1'', PyStr ''0B12E130E4059E923B7C911F42AB0E917D154895D2D14516331986F664D8CDA1'', False)"
    by (simp add: rsa_checked_def rsa_sample_hex Let_def str_last_def sha256_at_sample_def rsa_sample_upper)
  have "rsa_sig_val sha256_at_sample sha256_at_sample ''ME'' 11 rsa_sample rsa_sample 0
     = Some (False, PyStr ''B12E130E4059E923B7C911F42AB0E917D154895D2D14516331986F664D8CDA1'', PyStr ''0B12E130E4059E923B7C911F42AB0E917D154895D2D14516331986F664D8CDA1'', False)"
    unfolding rsa_sig_val_def Let_def rsa_sample_fields rsa_sample_pkey rsa_sample_sign rsa_sample_data option.case p
    by (simp add: c)
  then show ?thesis using p rsa_sample_digest_value by simp
qed

section \<open>The walk over uncharted \$CPD partitions: the sample files\<close>

lemma wcod_lengths:
  "length wcod_dir_1 = 0x10" "length wcod_dir_4 = 0x10" "length wcod_man_1 = 0x18"
  "length wcod_man_4 = 0x18" "length wcod_mod_a = 0x18" "length wcod_mod_a_met = 0x18"
  "length wcod_mod_b = 0x18" "length wcod_manifest = 0x284" "length wcod_ext03_0 = 0x58"
  "length wcod_ext03_100 = 0x58"
  by (simp_all add: wcod_dir_1_def wcod_dir_4_def wcod_man_1_def wcod_man_4_def wcod_mod_a_def
      wcod_mod_a_met_def wcod_mod_b_def wcod_manifest_def wcod_ext03_0_def wcod_ext03_100_def)

lemma length_wcod_empty: "length wcod_empty = 0x304"
  by (simp add: wcod_empty_def wcod_lengths)

lemma wcod_empty_structs:
  "get_struct 0x304 wcod_empty 0 0x10 = Inr wcod_dir_1"
  "get_struct 0x304 wcod_empty 0x28 0x284 = Inr wcod_manifest"
  "get_struct 0x304 wcod_empty 0x2AC 0x58 = Inr wcod_ext03_0"
  by (simp_all add: get_struct_def slice_def Let_def wcod_empty_def wcod_lengths)

lemma wcod_dir_fields:
  "field_u32 wcod_dir_1 0x4 = 1" "field_u32 wcod_dir_4 0x4 = 4"
  "c_char_value (slice wcod_dir_1 0xC 0x10) = [0x57, 0x43, 0x4F, 0x44]"
  "c_char_value (slice wcod_dir_4 0xC 0x10) = [0x57, 0x43, 0x4F, 0x44]"
  by (simp_all add: field_u32_def slice_def c_char_value_def wcod_dir_1_def wcod_dir_4_def)

lemma wcod_manifest_fields:
  "field_u32 wcod_manifest 0x4 = 0xA1" "c_char_value (slice wcod_manifest 0x1C 0x20) = mn2_sig"
  by (simp_all add: field_u32_def slice_def c_char_value_def wcod_manifest_def mn2_sig_def)

lemma wcod_ext03_fields:
  "field_u32 wcod_ext03_0 0xC = 0" "field_u32 wcod_ext03_100 0xC = 0x100"
  "field_u32 wcod_ext03_0 0x3C = 0" "field_u32 wcod_ext03_100 0x3C = 0"
  "c_char_value (slice wcod_ext03_0 0x8 0xC) = [0x57, 0x43, 0x4F, 0x44]"
  "c_char_value (slice wcod_ext03_100 0x8 0xC) = [0x57, 0x43, 0x4F, 0x44]"
  by (simp_all add: field_u32_def slice_def c_char_value_def wcod_ext03_0_def wcod_ext03_100_def)

lemma wcod_empty_sig: "slice wcod_empty 0 4 = cpd_sig"
  by (simp add: slice_def wcod_empty_def wcod_dir_1_def cpd_sig_def)

lemma format_0X_4_zero: "format_0X 4 0 = ''0000''"
  by (simp add: format_0X_def hex_digits.simps hex_char_def numeral_eq_Suc)

text \<open>
  On \<open>wcod_empty\<close> a pass that starts at offset 0 with \<open>cpd_end_last = 0\<close> passes both
  sanity checks, scans no entry (\<open>range(1, 1, 2)\<close> is empty) and adds
  \<open>max(0, 0) = 0\<close> to \<open>p_end_last\<close>.
\<close>

lemma wcod_empty_body:
  assumes "p_end_last st = 0" and "cpd_end_last st = 0"
  shows "cpd_walk_body extr wcod_empty st =
     Inr (Next (st \<lparr> fpt_in_id := ''0000'',
                     fpt_part_all := (if extr then fpt_part_all st @ [([0x57, 0x43, 0x4F, 0x44], 0, 0, ''0000'')]
                                      else fpt_part_all st) \<rparr>))"
  using assms
  by (simp add: cpd_walk_body_def cpd_walk_ext03_def cpd_walk_advance_def length_wcod_empty
      wcod_empty_structs wcod_dir_fields wcod_manifest_fields wcod_ext03_fields format_0X_4_zero)


lemma length_wcod_two_modules: "length wcod_two_modules = 0x34C"
  by (simp add: wcod_two_modules_def wcod_lengths)

lemma wcod_two_modules_structs:
  "get_struct 0x34C wcod_two_modules 0 0x10 = Inr wcod_dir_4"
  "get_struct 0x34C wcod_two_modules 0x28 0x18 = Inr wcod_mod_a"
  "get_struct 0x34C wcod_two_modules 0x58 0x18 = Inr wcod_mod_b"
  "get_struct 0x34C wcod_two_modules 0x70 0x284 = Inr wcod_manifest"
  "get_struct 0x34C wcod_two_modules 0x2F4 0x58 = Inr wcod_ext03_100"
  by (simp_all add: get_struct_def slice_def Let_def wcod_two_modules_def wcod_lengths)

lemma wcod_two_modules_slices:
  "slice wcod_two_modules 0 0x10 = wcod_dir_4"
  "slice wcod_two_modules 0x10 0x28 = wcod_man_4"
  "slice wcod_two_modules 0x28 0x40 = wcod_mod_a"
  "slice wcod_two_modules 0x40 0x58 = wcod_mod_a_met"
  "slice wcod_two_modules 0x58 0x70 = wcod_mod_b"
  "slice wcod_two_modules 0x70 0x2F4 = wcod_manifest"
  "slice wcod_two_modules 0x2F4 0x34C = wcod_ext03_100"
  by (simp_all add: slice_def wcod_two_modules_def wcod_lengths)

lemma cpd_mod_off_of_samples:
  "cpd_mod_off_of 0x70 = 0x70" "cpd_mod_off_of 0x400 = 0x400" "cpd_mod_off_of 0x500 = 0x500"
  "cpd_mod_off_of 0x34C = 0x34C"
  by (simp_all add: cpd_mod_off_of_def cpd_attr_decode_eq)

lemma wcod_entry_fields:
  "entry_is_metadata wcod_man_4" "\<not> entry_is_metadata wcod_mod_a"
  "entry_is_metadata wcod_mod_a_met" "\<not> entry_is_metadata wcod_mod_b"
  "cpd_entry_offset_size wcod_mod_a = (0x400, 0x300)"
  "cpd_entry_offset_size wcod_mod_b = (0x500, 0x10)"
  by (simp_all add: entry_is_metadata_def cpd_entry_offset_size_def field_u32_def slice_def
      c_char_value_def dot_met_def dot_man_def wcod_man_4_def wcod_mod_a_def wcod_mod_a_met_def
      wcod_mod_b_def cpd_mod_off_of_samples)

lemma wcod_two_modules_body:
  "cpd_walk_body False wcod_two_modules (walk_init 0)
   = Inr (Next \<lparr> p_end_last = 0x510, cpd_offset_last = 0x500, cpd_end_last = 0x510,
        fpt_in_id = ''0000'', fpt_part_all = [] \<rparr>)"
  using wcod_entry_fields(5, 6)
  by (simp add: cpd_walk_body_def cpd_walk_ext03_def cpd_walk_advance_def walk_init_def
      length_wcod_two_modules wcod_two_modules_structs wcod_dir_fields wcod_manifest_fields
      wcod_ext03_fields format_0X_4_zero upt_conv_Cons wcod_entry_fields(1-4)
      cpd_entry_offset_size_def)

section \<open>The walk over uncharted \$CPD partitions: progress\<close>

text \<open>
  A set of states that the loop condition accepts and the body maps into itself is never
  left: the loop does not return from any of them.
\<close>

lemma cpd_walk_spin:
  assumes inv: "\<And>s. I s \<Longrightarrow> slice reading (p_end_last s) (p_end_last s + 0x4) = cpd_sig
              \<and> (\<exists>s'. cpd_walk_body extr reading s = Inr (Next s') \<and> I s')"
    and st: "I st"
  shows "cpd_walk extr reading st = None"
proof -
  have "cpd_walk extr reading st = Some r \<Longrightarrow> \<not> (extr = extr \<and> reading = reading \<and> I st)" for r
  proof (rule cpd_walk.raw_induct [where P = "\<lambda>e rd s y. \<not> (e = extr \<and> rd = reading \<and> I s)"])
    fix f e rd s y
    assume ih: "\<And>e rd s y. f e rd s = Some y \<Longrightarrow> \<not> (e = extr \<and> rd = reading \<and> I s)"
      and step: "(if slice rd (p_end_last s) (p_end_last s + 4) = cpd_sig
          then case cpd_walk_body e rd s of
                 Inl x \<Rightarrow> Some (Inl x)
               | Inr (Break st1) \<Rightarrow> Some (Inr st1)
               | Inr (Next st1) \<Rightarrow> f e rd st1
          else Some (Inr s)) = Some y"
    show "\<not> (e = extr \<and> rd = reading \<and> I s)"
    proof
      assume eq: "e = extr \<and> rd = reading \<and> I s"
      then obtain s' where c: "slice reading (p_end_last s) (p_end_last s + 0x4) = cpd_sig"
        and b: "cpd_walk_body extr reading s = Inr (Next s')" and i: "I s'"
        using inv [of s] by auto
      from step eq c b have "f extr reading s' = Some y" by simp
      from ih [OF this] i show False by simp
    qed
  qed
  with st show ?thesis by (cases "cpd_walk extr reading st") auto
qed

text \<open>
  C5, on a file that starts with a \$CPD partition whose Extension 0x03 declares
  \<open>PartitionSize\<close> 0 and whose only entry is the manifest: every pass leaves
  \<open>p_end_last\<close> at 0, where the signature \<open>\$CPD\<close> still stands, and the loop never
  ends, with or without \<open>-unp86\<close>.
\<close>

theorem cpd_walk_never_ends:
  "cpd_walk False wcod_empty (walk_init 0) = None \<and> cpd_walk True wcod_empty (walk_init 0) = None"
proof -
  have "cpd_walk extr wcod_empty (walk_init 0) = None" for extr
  proof (rule cpd_walk_spin [where I = "\<lambda>s. p_end_last s = 0 \<and> cpd_end_last s = 0"])
    fix s :: walk_state
    assume "p_end_last s = 0 \<and> cpd_end_last s = 0"
    then show "slice wcod_empty (p_end_last s) (p_end_last s + 0x4) = cpd_sig
        \<and> (\<exists>s'. cpd_walk_body extr wcod_empty s = Inr (Next s') \<and> p_end_last s' = 0 \<and> cpd_end_last s' = 0)"
      by (simp add: wcod_empty_sig wcod_empty_body)
  next
    show "p_end_last (walk_init 0) = 0 \<and> cpd_end_last (walk_init 0) = 0"
      by (simp add: walk_init_def)
  qed
  then show ?thesis by simp
qed


section \<open>The walk over uncharted \$CPD partitions: the inferred size\<close>

lemma get_struct_Inr:
  "get_struct fe s off n = Inr bs \<Longrightarrow> bs = slice s off (off + n)"
  by (auto simp: get_struct_def Let_def split: if_splits)

lemma ex_greatest_fst:
  "es \<noteq> [] \<Longrightarrow> \<exists>x \<in> set es. \<forall>y \<in> set es. fst y \<le> (fst x :: nat)"
proof (induction es)
  case Nil
  then show ?case by simp
next
  case (Cons e es)
  show ?case
  proof (cases "es = []")
    case True
    then show ?thesis by simp
  next
    case False
    with Cons obtain x where x: "x \<in> set es" "\<forall>y \<in> set es. fst y \<le> fst x" by auto
    show ?thesis
    proof (cases "fst x \<le> fst e")
      case True
      with x show ?thesis by (intro bexI [where x = e]) auto
    next
      case False
      with x show ?thesis by (intro bexI [where x = x]) auto
    qed
  qed
qed

lemma track_find:
  "track es (ol, el) = end_of_greatest_offset ol es (ol, el)"
proof (induction es arbitrary: ol el)
  case Nil
  then show ?case by (simp add: end_of_greatest_offset_def)
next
  case (Cons e es)
  show ?case
  proof (cases "ol < fst e")
    case True
    note gt = True
    show ?thesis
    proof (cases "\<forall>e' \<in> set es. fst e' \<le> fst e")
      case True
      then have "find (\<lambda>x. fst e < fst x \<and> (\<forall>e' \<in> set es. fst e' \<le> fst x)) es = None"
        by (auto simp: find_None_iff)
      with True gt show ?thesis
        using Cons [of "fst e" "fst e + snd e"] by (simp add: end_of_greatest_offset_def)
    next
      case False
      then obtain m where m: "m \<in> set es" "fst e < fst m" by (auto simp: not_le)
      have "find (\<lambda>x. ol < fst x \<and> (\<forall>e' \<in> set (e # es). fst e' \<le> fst x)) es
          = find (\<lambda>x. fst e < fst x \<and> (\<forall>e' \<in> set es. fst e' \<le> fst x)) es"
      proof (rule find_cong [OF refl])
        fix x assume "x \<in> set es"
        show "(ol < fst x \<and> (\<forall>e' \<in> set (e # es). fst e' \<le> fst x))
            = (fst e < fst x \<and> (\<forall>e' \<in> set es. fst e' \<le> fst x))"
          using m gt by (auto dest: bspec [where x = m])
      qed
      moreover have "es \<noteq> []" using m by auto
      from ex_greatest_fst [OF this]
      obtain x where x: "x \<in> set es" "\<forall>y \<in> set es. fst y \<le> fst x" by blast
      then have "fst e < fst x" using m by (auto dest: bspec [where x = m])
      with x have "find (\<lambda>x. fst e < fst x \<and> (\<forall>e' \<in> set es. fst e' \<le> fst x)) es \<noteq> None"
        unfolding find_None_iff by blast
      ultimately show ?thesis
        using False gt Cons [of "fst e" "fst e + snd e"]
        by (auto simp: end_of_greatest_offset_def)
    qed
  next
    case False
    have "find (\<lambda>x. ol < fst x \<and> (\<forall>e' \<in> set (e # es). fst e' \<le> fst x)) es
        = find (\<lambda>x. ol < fst x \<and> (\<forall>e' \<in> set es. fst e' \<le> fst x)) es"
    proof (rule find_cong [OF refl])
      fix x assume "x \<in> set es"
      show "(ol < fst x \<and> (\<forall>e' \<in> set (e # es). fst e' \<le> fst x))
          = (ol < fst x \<and> (\<forall>e' \<in> set es. fst e' \<le> fst x))"
        using False by auto
    qed
    with False show ?thesis
      using Cons [of ol el] by (simp add: end_of_greatest_offset_def)
  qed
qed

lemma cpd_entries_scan_track:
  "cpd_entries_scan reading p entries trk = Inr trk' \<Longrightarrow>
   trk' = track (map cpd_entry_offset_size
                  (takeWhile (\<lambda>e. \<not> entry_is_metadata e) (map (cpd_entry_at reading p) entries))) trk"
proof (induction entries arbitrary: trk)
  case Nil
  then show ?case by simp
next
  case (Cons entry entries)
  from Cons.prems obtain hdr where
    g: "get_struct (length reading) reading (p + 0x10 + entry * 0x18) 0x18 = Inr hdr"
    by (auto split: sum.splits)
  have h: "hdr = cpd_entry_at reading p entry"
    unfolding cpd_entry_at_def by (rule get_struct_Inr [OF g])
  show ?case
  proof (cases "entry_is_metadata hdr")
    case True
    with Cons.prems g h show ?thesis by simp
  next
    case False
    with Cons.prems g h Cons.IH show ?thesis
      by (auto simp: Let_def cpd_entry_offset_size_def split: if_splits)
  qed
qed

lemma cpd_walk_body_size_tracked:
  assumes a: "cpd_walk_body extr reading st = Inr (Next st')"
  shows "p_end_last st' = p_end_last st
      + max (cpd_partition_size reading (p_end_last st))
          (snd (end_of_greatest_offset (cpd_offset_last st) (scanned_entries reading (p_end_last st))
                  (cpd_offset_last st, cpd_end_last st)))"
proof -
  let ?p = "p_end_last st"
  from a obtain cpd_hdr where g1: "get_struct (length reading) reading ?p 0x10 = Inr cpd_hdr"
    by (auto simp: cpd_walk_body_def split: sum.splits)
  have h1: "cpd_hdr = slice reading ?p (?p + 0x10)" by (rule get_struct_Inr [OF g1])
  define cpd_num where "cpd_num = field_u32 cpd_hdr 0x4"
  have n: "cpd_num = cpd_num_at reading ?p" by (simp add: cpd_num_def cpd_num_at_def h1)
  define mn2_start where "mn2_start = ?p + 0x10 + cpd_num * 0x18"
  define cpd_tag where "cpd_tag = c_char_value (slice cpd_hdr 0xC 0x10)"
  from a g1 obtain mn2_hdr where
    g2: "get_struct (length reading) reading mn2_start 0x284 = Inr mn2_hdr"
    by (auto simp: cpd_walk_body_def Let_def cpd_num_def mn2_start_def split: sum.splits)
  have h2: "mn2_hdr = slice reading mn2_start (mn2_start + 0x284)" by (rule get_struct_Inr [OF g2])
  define ext_start where "ext_start = mn2_start + field_u32 mn2_hdr 0x4 * 4"
  from a g1 g2 have e: "cpd_walk_ext03 extr reading st cpd_num cpd_tag ext_start = Inr (Next st')"
    by (auto simp: cpd_walk_body_def Let_def cpd_num_def mn2_start_def cpd_tag_def ext_start_def
        split: if_splits)
  then obtain cpd_ext_03 where
    g3: "get_struct (length reading) reading ext_start 0x58 = Inr cpd_ext_03"
    by (auto simp: cpd_walk_ext03_def split: sum.splits)
  have h3: "cpd_ext_03 = slice reading ext_start (ext_start + 0x58)" by (rule get_struct_Inr [OF g3])
  define st1 where "st1 = st \<lparr> fpt_in_id := format_0X 4 (field_u32 cpd_ext_03 0x3C) \<rparr>"
  from e g3 have adv:
    "cpd_walk_advance extr reading st1 cpd_num cpd_tag (field_u32 cpd_ext_03 0xC) = Inr st'"
    by (auto simp: cpd_walk_ext03_def Let_def st1_def split: if_splits sum.splits)
  then obtain trk where
    sc: "cpd_entries_scan reading ?p (filter odd [1..<cpd_num]) (cpd_offset_last st, cpd_end_last st)
          = Inr trk"
    and pe: "p_end_last st' = ?p + max (field_u32 cpd_ext_03 0xC) (snd trk)"
    by (auto simp: cpd_walk_advance_def Let_def st1_def split: sum.splits)
  have "trk = track (scanned_entries reading ?p) (cpd_offset_last st, cpd_end_last st)"
    using cpd_entries_scan_track [OF sc] by (simp add: scanned_entries_def n)
  then have t: "trk = end_of_greatest_offset (cpd_offset_last st) (scanned_entries reading ?p)
      (cpd_offset_last st, cpd_end_last st)"
    by (simp add: track_find)
  have ps: "field_u32 cpd_ext_03 0xC = cpd_partition_size reading ?p"
    by (simp add: cpd_partition_size_def Let_def h3 ext_start_def h2 mn2_start_def n)
  show ?thesis by (simp add: pe t ps)
qed

text \<open>
  C6, amended. For a CPD-based uncharted partition met with the trackers
  \<open>cpd_offset_last\<close> and \<open>cpd_end_last\<close> still 0, the inferred size, which is what
  the pass adds to \<open>p_end_last\<close>, is the larger of \<open>PartitionSize\<close> of the partition's
  Extension 0x03 and the end (offset + size) of the first entry with the greatest offset
  among the odd-numbered entries that precede the first odd-numbered entry whose name
  contains \<open>.met\<close> or \<open>.man\<close>; the second figure is 0 when no such entry has a
  positive offset.
\<close>

theorem cpd_walk_body_size:
  assumes "cpd_walk_body extr reading st = Inr (Next st')"
    and "cpd_offset_last st = 0" and "cpd_end_last st = 0"
  shows "p_end_last st' = p_end_last st + inferred_cpd_size reading (p_end_last st)"
  using cpd_walk_body_size_tracked [OF assms(1)] assms(2, 3) by (simp add: inferred_cpd_size_def)


theorem cpd_walk_body_size_witness:
  "inferred_cpd_size wcod_two_modules 0 = 0x510"
proof -
  have "p_end_last (walk_init 0) = 0" "cpd_offset_last (walk_init 0) = 0"
    "cpd_end_last (walk_init 0) = 0"
    by (simp_all add: walk_init_def)
  with cpd_walk_body_size [OF wcod_two_modules_body] show ?thesis by simp
qed

lemma wcod_two_modules_claimed: "claimed_cpd_size wcod_two_modules 0 = 0x700"
proof -
  have n: "cpd_num_at wcod_two_modules 0 = 4"
    by (simp add: cpd_num_at_def wcod_two_modules_slices wcod_dir_fields)
  have e: "map (cpd_entry_at wcod_two_modules 0) [0..<4]
      = [wcod_man_4, wcod_mod_a, wcod_mod_a_met, wcod_mod_b]"
    by (simp add: cpd_entry_at_def wcod_two_modules_slices upt_conv_Cons)
  have p: "cpd_partition_size wcod_two_modules 0 = 0x100"
    by (simp add: cpd_partition_size_def Let_def n wcod_two_modules_slices wcod_manifest_fields
        wcod_ext03_fields)
  show ?thesis
    by (simp add: claimed_cpd_size_def n e p wcod_entry_fields)
qed

text \<open>
  C6, as stated, on \<open>wcod_two_modules\<close>: \<open>mod_a\<close> ends at \<open>0x700\<close>, the greatest end of
  a non-metadata entry, but \<open>mod_b\<close> has the greater offset and ends at \<open>0x510\<close>; the
  pass infers \<open>0x510\<close>.
\<close>

theorem cpd_walk_body_not_greatest_end:
  "cpd_walk_body False wcod_two_modules (walk_init 0)
     = Inr (Next \<lparr> p_end_last = 0x510, cpd_offset_last = 0x500, cpd_end_last = 0x510,
          fpt_in_id = ''0000'', fpt_part_all = [] \<rparr>)
   \<and> p_end_last (walk_init 0) = 0
   \<and> claimed_cpd_size wcod_two_modules 0 = 0x700"
proof -
  have "p_end_last (walk_init 0) = 0" by (simp add: walk_init_def)
  with wcod_two_modules_body wcod_two_modules_claimed show ?thesis by (simp only: simp_thms)
qed

section \<open>The main loop: a fault in one file of a batch\<close>

text \<open>A fault in the analysis of one file ends the loop: the files behind it are not read.\<close>

lemma main_loop_fault:
  "analyse_file engine_found reading = Inl e \<Longrightarrow>
   main_loop engine_found (reading # source) results = (results, Some e)"
  by simp

lemma analyse_fpt_cut_off: "analyse_file engine_found fpt_cut_off = Inl (OutOfBounds 0)"
  by (simp add: analyse_file_def man_match_found_def re_search_def fpt_cut_off_def
      man_pat_mn2_def man_pat_man_def tekoa_pat_def provision_pat_def no_manifest_text_def
      spi_fd_init_def fd_pat_pch_def fd_pat_ich_def no_region_text_def fuj_umem_ver_def
      py_slice_def py_index_def slice_def me_rec_guid_def foxconn_hdr_def fpt_pat_def
      fpt_only_text_def get_struct_def Let_def)

lemma analyse_zero_byte_file: "analyse_file engine_found zero_byte_file = Inr (Inl No_Engine_Firmware)"
  by (simp add: analyse_file_def man_match_found_def re_search_def zero_byte_file_def
      man_pat_mn2_def man_pat_man_def tekoa_pat_def provision_pat_def no_manifest_text_def
      spi_fd_init_def fd_pat_pch_def fd_pat_ich_def no_region_text_def fuj_umem_ver_def
      py_slice_def py_index_def slice_def me_rec_guid_def foxconn_hdr_def fpt_pat_def
      fpt_only_text_def get_struct_def Let_def)

text \<open>
  C4, on a batch of two files. \<open>fpt_cut_off\<close> has no manifest and no flash descriptor
  but matches the \<open>\$FPT\<close> pattern at 0; \<open>get_struct\<close> finds 8 bytes where the header
  needs \<open>0x20\<close> and ends the process. Placed first, it keeps the second file from being
  processed at all; placed second, the run still ends in the exit. The file without
  firmware alone is reported, and the loop goes on (\<open>continue\<close>).
\<close>

theorem main_loop_aborts_batch:
  "main_loop (\<lambda>reading. Inr ()) [fpt_cut_off, zero_byte_file] [] = ([], Some (OutOfBounds 0))
   \<and> main_loop (\<lambda>reading. Inr ()) [zero_byte_file, fpt_cut_off] []
       = ([Inl No_Engine_Firmware], Some (OutOfBounds 0))
   \<and> main_loop (\<lambda>reading. Inr ()) [zero_byte_file] [] = ([Inl No_Engine_Firmware], None)"
  by (simp add: analyse_fpt_cut_off analyse_zero_byte_file)

section \<open>The extension loop of a manifest or metadata entry\<close>

text \<open>
  The loop is a total function: its termination proof rests on the pass counter alone. Started
  with the counter at most 100, it ends with the counter at most 101; when it was forced to
  end, the counter is 101 and the last stored error is the forced break; when it reached the
  end of the entry, the offset is at or behind that end.
\<close>

lemma ext_loop_cap:
  "ext_loop extr reading entry_end st = Inr (e, st') \<Longrightarrow> loop_break st \<le> 100 \<Longrightarrow>
   loop_break st' \<le> 101
   \<and> (e = Forced_Break \<longrightarrow> loop_break st' = 101 \<and> err_stor st' \<noteq> []
        \<and> last (err_stor st') = Forced_Break_After_100)
   \<and> (e = End_Reached \<longrightarrow> loop_break st' \<le> 100 \<and> entry_end \<le> cpd_ext_offset st')"
proof (induction extr reading entry_end st rule: ext_loop.induct)
  case (1 extr reading entry_end st)
  show ?case
  proof (cases "loop_break st + 1 > 100")
    case True
    with "1.prems" show ?thesis by (subst (asm) ext_loop.simps) auto
  next
    case False
    note small = False
    from "1.prems"(1) small obtain tag errs sz where
      p: "ext_pass extr reading st = Inr (tag, errs, sz)"
      by (subst (asm) ext_loop.simps) (auto split: sum.splits)
    show ?thesis
    proof (cases "cpd_ext_offset st + sz + 1 > entry_end")
      case True
      with "1.prems" small p show ?thesis
        by (subst (asm) ext_loop.simps) (auto simp: Let_def)
    next
      case False
      let ?st1 = "\<lparr> cpd_ext_offset = cpd_ext_offset st + sz,
          ext_tag = from_bytes_little (slice reading (cpd_ext_offset st + sz) (cpd_ext_offset st + sz + 0x4)),
          loop_break = loop_break st + 1, err_stor = errs \<rparr>"
      from "1.prems"(1) small p False have r: "ext_loop extr reading entry_end ?st1 = Inr (e, st')"
        by (subst (asm) ext_loop.simps) (simp add: Let_def)
      have "loop_break ?st1 \<le> 100" using small by simp
      from "1.IH" [OF small p refl refl refl False r this] show ?thesis .
    qed
  qed
qed

text \<open>The sample with the erased module record, field by field.\<close>

lemma length_met_erased_name: "length met_erased_name = 0x8C"
  by (simp add: met_erased_name_def)

lemma erased_head: "get_struct 0x8C met_erased_name 0 0x58 = Inr (take 0x58 met_erased_name)"
  by (simp add: get_struct_def slice_def Let_def length_met_erased_name)

lemma erased_mod: "get_struct 0x8C met_erased_name 0x58 0x34 = Inr (replicate 0x34 0xFF)"
  by (simp add: get_struct_def slice_def Let_def met_erased_name_def)

lemma replicate_12: "replicate 12 x = x # replicate 11 x"
  by (simp add: numeral_eq_Suc)

lemma erased_name: "\<not> decodes_ok [(0, 12)] (replicate 0x34 0xFF)"
proof -
  have "c_char_value (slice (replicate 0x34 (0xFF :: byte)) 0 12) = replicate 12 0xFF"
    by (simp add: slice_def c_char_value_def)
  moreover have "\<not> utf8_decodable (replicate 12 0xFF)"
    by (subst replicate_12) simp
  ultimately show ?thesis by (simp add: decodes_ok_def)
qed

lemma erased_fields:
  "from_bytes_little (slice met_erased_name 0 4) = 3"
  "from_bytes_little (slice met_erased_name 4 8) = 0x8C"
  by (simp_all add: slice_def met_erased_name_def)

text \<open>
  An Extension 0x0A that declares a length of 0 never advances: the loop makes 100 passes,
  stores the error and ends.
\<close>

lemma length_met_zero_length: "length met_zero_length = 0x38"
  by (simp add: met_zero_length_def)

lemma zero_length_fields:
  "from_bytes_little (slice met_zero_length 0 4) = 0x0A"
  "from_bytes_little (slice met_zero_length 4 8) = 0"
  by (simp_all add: slice_def met_zero_length_def)

lemma zero_length_head:
  "get_struct 0x38 met_zero_length 0 0x38 = Inr met_zero_length"
  by (simp add: get_struct_def slice_def Let_def length_met_zero_length)

lemma zero_length_pass:
  "ext_pass False met_zero_length
      \<lparr> cpd_ext_offset = 0, ext_tag = 0x0A, loop_break = n, err_stor = [] \<rparr>
    = Inr (0x0A, [], 0)"
  by (simp add: ext_pass_def Let_def ext_tag_all_def zero_length_fields ext_tag_block_def
        struct_only_def length_met_zero_length zero_length_head ext_dict_def)

lemma zero_length_spin:
  "k \<le> 100 \<Longrightarrow>
   ext_loop False met_zero_length 0x38
     \<lparr> cpd_ext_offset = 0, ext_tag = 0x0A, loop_break = 100 - k, err_stor = [] \<rparr>
   = Inr (Forced_Break,
       \<lparr> cpd_ext_offset = 0, ext_tag = 0x0A, loop_break = 101,
         err_stor = [Forced_Break_After_100] \<rparr>)"
proof (induction k)
  case 0
  show ?case by (subst ext_loop.simps) simp
next
  case (Suc k)
  then have "100 - Suc k + 1 = 100 - k" by simp
  with Suc show ?case
    by (subst ext_loop.simps) (simp add: zero_length_pass zero_length_fields Let_def)
qed

lemma ext_scan_zero_length:
  "ext_scan False met_zero_length 0 0x38 =
     Inr (Forced_Break,
       \<lparr> cpd_ext_offset = 0, ext_tag = 0x0A, loop_break = 101,
         err_stor = [Forced_Break_After_100] \<rparr>)"
  using zero_length_spin [of 100] by (simp add: ext_scan_def zero_length_fields)

text \<open>
  C7: the extension loop does not end every input with a result or a stored error. In
  \<open>met_erased_name\<close> an Extension 0x03 declares \<open>0x8C\<close> bytes, so the loop over its module
  records reads the record at \<open>0x58\<close>, which lies in erased flash; \<open>Name.decode('utf-8')\<close> is
  strict and raises on the byte \<open>0xFF\<close>. Nothing catches the exception, whatever the size of
  the owning entry is: the first pass ends the analysis with \<open>UnicodeDecodeError\<close>, before
  the counter or the end of the entry are looked at again.
\<close>

theorem ext_scan_erased_name:
  "ext_scan False met_erased_name 0 entry_end = Inl Uncaught_UnicodeDecodeError"
proof -
  have m: "mods_scan met_erased_name [(0, 12)] 0x34 0x8C 0x58 = Inl Uncaught_UnicodeDecodeError"
    by (subst mods_scan.simps) (simp add: length_met_erased_name erased_mod erased_name)
  have p: "ext_pass False met_erased_name
      \<lparr> cpd_ext_offset = 0, ext_tag = 3, loop_break = 0, err_stor = [] \<rparr>
      = Inl Uncaught_UnicodeDecodeError"
    by (simp add: ext_pass_def Let_def ext_tag_all_def erased_fields ext_tag_block_def
        struct_only_def length_met_erased_name erased_head m)
  have "ext_scan False met_erased_name 0 entry_end =
      ext_loop False met_erased_name entry_end
        \<lparr> cpd_ext_offset = 0, ext_tag = 3, loop_break = 0, err_stor = [] \<rparr>"
    by (simp add: ext_scan_def erased_fields)
  also have "\<dots> = Inl Uncaught_UnicodeDecodeError"
    by (subst ext_loop.simps) (simp add: p)
  finally show ?thesis .
qed

end
